theory Spec2Isabelle
  imports Complex_Main
begin

section \<open>Conventions\<close>

text \<open>
  The decision engine is TypeScript. A JavaScript \<^verbatim>\<open>number\<close> that the code only
  compares with constants is modelled as a \<^typ>\<open>real\<close>; a value that may be absent,
  \<^verbatim>\<open>null\<close>, \<^verbatim>\<open>undefined\<close> or \<^verbatim>\<open>NaN\<close> is an \<^typ>\<open>'a option\<close>.
  Where the code computes with numbers and the result decides a property, the model
  carries \<^verbatim>\<open>NaN\<close>, the infinities and the rounding of doubles explicitly.
  A \<^verbatim>\<open>bigint\<close> is an \<^typ>\<open>int\<close>; its division truncates toward zero.
  Strategy names are strings, compared with literals as the source does.
\<close>

subsection \<open>JavaScript numbers with \<^verbatim>\<open>NaN\<close> and infinities\<close>

text \<open>A double is \<^verbatim>\<open>NaN\<close>, an infinity or a finite value (a real; \<^verbatim>\<open>-0\<close> is
  identified with 0). The result of an arithmetic operation on finite doubles is the
  exact result rounded to a double, which may be an infinity on overflow: the operations
  below take that rounding as the parameter \<open>rnd\<close>, and the theorems about them hold for
  every rounding.\<close>

datatype jsnum = NaN | NegInf | Fin real | PosInf

fun js_add :: "(real \<Rightarrow> jsnum) \<Rightarrow> jsnum \<Rightarrow> jsnum \<Rightarrow> jsnum" where
  "js_add rnd NaN b = NaN"
| "js_add rnd a NaN = NaN"
| "js_add rnd (Fin x) (Fin y) = rnd (x + y)"
| "js_add rnd PosInf NegInf = NaN"
| "js_add rnd NegInf PosInf = NaN"
| "js_add rnd PosInf b = PosInf"
| "js_add rnd a PosInf = PosInf"
| "js_add rnd NegInf b = NegInf"
| "js_add rnd a NegInf = NegInf"

text \<open>The product of an infinity and 0 is \<^verbatim>\<open>NaN\<close>.\<close>

fun js_mul :: "(real \<Rightarrow> jsnum) \<Rightarrow> jsnum \<Rightarrow> jsnum \<Rightarrow> jsnum" where
  "js_mul rnd NaN b = NaN"
| "js_mul rnd a NaN = NaN"
| "js_mul rnd (Fin x) (Fin y) = rnd (x * y)"
| "js_mul rnd (Fin x) PosInf = (if x = 0 then NaN else if x > 0 then PosInf else NegInf)"
| "js_mul rnd (Fin x) NegInf = (if x = 0 then NaN else if x > 0 then NegInf else PosInf)"
| "js_mul rnd PosInf (Fin y) = (if y = 0 then NaN else if y > 0 then PosInf else NegInf)"
| "js_mul rnd NegInf (Fin y) = (if y = 0 then NaN else if y > 0 then NegInf else PosInf)"
| "js_mul rnd PosInf PosInf = PosInf"
| "js_mul rnd PosInf NegInf = NegInf"
| "js_mul rnd NegInf PosInf = NegInf"
| "js_mul rnd NegInf NegInf = PosInf"

text \<open>Division by a positive finite literal, the only division of the code modelled
  with these numbers (\<^verbatim>\<open>confidence / 100\<close>).\<close>

fun js_div_literal :: "(real \<Rightarrow> jsnum) \<Rightarrow> jsnum \<Rightarrow> real \<Rightarrow> jsnum" where
  "js_div_literal rnd NaN c = NaN"
| "js_div_literal rnd PosInf c = PosInf"
| "js_div_literal rnd NegInf c = NegInf"
| "js_div_literal rnd (Fin x) c = rnd (x / c)"

text \<open>\<^verbatim>\<open>Math.max\<close> and \<^verbatim>\<open>Math.min\<close>: \<^verbatim>\<open>NaN\<close> when an argument is \<^verbatim>\<open>NaN\<close>,
  otherwise one of the arguments, unrounded.\<close>

fun js_max :: "jsnum \<Rightarrow> jsnum \<Rightarrow> jsnum" where
  "js_max NaN b = NaN"
| "js_max a NaN = NaN"
| "js_max PosInf b = PosInf"
| "js_max a PosInf = PosInf"
| "js_max NegInf b = b"
| "js_max a NegInf = a"
| "js_max (Fin x) (Fin y) = Fin (max x y)"

fun js_min :: "jsnum \<Rightarrow> jsnum \<Rightarrow> jsnum" where
  "js_min NaN b = NaN"
| "js_min a NaN = NaN"
| "js_min NegInf b = NegInf"
| "js_min a NegInf = NegInf"
| "js_min PosInf b = b"
| "js_min a PosInf = a"
| "js_min (Fin x) (Fin y) = Fin (min x y)"

subsection \<open>Adaptive learning controller (learning-system)\<close>

record AgentLearningProfile =
  agentId :: string
  strategy :: string
  totalTrades :: nat
  wins :: nat
  losses :: nat
  winRate :: real
  netPnL :: real
  confidenceThreshold :: real
  positionSize :: jsnum
  maxPositions :: real
  successfulPatterns :: "string list"
  failedPatterns :: "string list"

text \<open>\<^verbatim>\<open>getRecommendedPositionSize(profile, confidence)\<close>:
  \<^verbatim>\<open>Math.min(15, Math.max(2, baseSize * (0.5 + confidence / 100)))\<close>. The literals
  0.5, 2, 15 and 100 are doubles.\<close>

definition getRecommendedPositionSize ::
  "(real \<Rightarrow> jsnum) \<Rightarrow> AgentLearningProfile \<Rightarrow> jsnum \<Rightarrow> jsnum" where
  "getRecommendedPositionSize rnd profile confidence =
     (let baseSize = positionSize profile;
          confidenceMultiplier = js_add rnd (Fin 0.5) (js_div_literal rnd confidence 100)
      in js_min (Fin 15) (js_max (Fin 2) (js_mul rnd baseSize confidenceMultiplier)))"

text \<open>Example data: the profile of an agent without trade history (threshold 75, base
  size 5 MON, two positions).\<close>

definition freshProfile :: AgentLearningProfile where
  "freshProfile =
     \<lparr>agentId = ''agent-1'', strategy = ''contrarian'', totalTrades = 0, wins = 0, losses = 0,
      winRate = 0, netPnL = 0, confidenceThreshold = 75, positionSize = Fin 5, maxPositions = 2,
      successfulPatterns = [], failedPatterns = []\<rparr>"

subsection \<open>Token claim coordinator (agent-coordinator)\<close>

record TokenClaim =
  tokenAddress :: string
  agentId :: string
  agentName :: string
  claimedAt :: real
  expiresAt :: real
  reason :: string

text \<open>The static \<^verbatim>\<open>Map<string, TokenClaim>\<close>, keyed by the normalised address.\<close>

type_synonym claims = "string \<rightharpoonup> TokenClaim"

definition DEFAULT_LOCK_DURATION :: real where
  "DEFAULT_LOCK_DURATION = 300000"

definition MAX_LOCK_DURATION :: real where
  "MAX_LOCK_DURATION = 600000"

text \<open>\<^verbatim>\<open>String.prototype.toLowerCase\<close> on the ASCII range (token addresses are hex strings).\<close>

definition lowerChar :: "char \<Rightarrow> char" where
  "lowerChar c =
     (case map_of (zip ''ABCDEFGHIJKLMNOPQRSTUVWXYZ'' ''abcdefghijklmnopqrstuvwxyz'') c of
        Some l \<Rightarrow> l
      | None \<Rightarrow> c)"

definition toLowerCase :: "string \<Rightarrow> string" where
  "toLowerCase s = map lowerChar s"

text \<open>\<^verbatim>\<open>cleanupExpiredClaims\<close>: collects the addresses whose claim has
  \<^verbatim>\<open>expiresAt < now\<close> and deletes them. It reads the clock itself.\<close>

definition cleanupExpiredClaims :: "real \<Rightarrow> claims \<Rightarrow> claims" where
  "cleanupExpiredClaims now cs =
     (\<lambda>address. case cs address of
        None \<Rightarrow> None
      | Some claim \<Rightarrow> if expiresAt claim < now then None else Some claim)"

text \<open>The tail of \<^verbatim>\<open>claimToken\<close> ("Claim is available - take it!"): the requested
  duration is clamped to \<open>MAX_LOCK_DURATION\<close> and a new record is stored.\<close>

definition takeClaim ::
  "real \<Rightarrow> string \<Rightarrow> string \<Rightarrow> string \<Rightarrow> string \<Rightarrow> real \<Rightarrow> claims \<Rightarrow> bool \<times> claims" where
  "takeClaim now normalizedAddress agent name why durationMs cs =
     (let clampedDuration = min durationMs MAX_LOCK_DURATION
      in (True,
          cs(normalizedAddress \<mapsto>
             \<lparr>tokenAddress = normalizedAddress, agentId = agent, agentName = name,
              claimedAt = now, expiresAt = now + clampedDuration, reason = why\<rparr>)))"

text \<open>\<^verbatim>\<open>claimToken(tokenAddress, agentId, agentName, reason, durationMs)\<close>. The first
  argument is the value of \<^verbatim>\<open>Date.now()\<close> read by \<^verbatim>\<open>claimToken\<close>, the second the
  later reading made inside \<^verbatim>\<open>cleanupExpiredClaims\<close>. The result is the returned
  boolean and the new map. The re-claim branch stores \<^verbatim>\<open>now + durationMs\<close> as it is.\<close>

definition claimToken ::
  "real \<Rightarrow> real \<Rightarrow> string \<Rightarrow> string \<Rightarrow> string \<Rightarrow> string \<Rightarrow> real \<Rightarrow> claims \<Rightarrow> bool \<times> claims" where
  "claimToken now nowSweep tokenAddr agent name why durationMs cs =
     (let normalizedAddress = toLowerCase tokenAddr;
          swept = cleanupExpiredClaims nowSweep cs
      in case swept normalizedAddress of
           Some existing \<Rightarrow>
             if expiresAt existing \<ge> now then
               if agentId existing = agent then
                 (True, swept(normalizedAddress \<mapsto> existing\<lparr>expiresAt := now + durationMs\<rparr>))
               else (False, swept)
             else takeClaim now normalizedAddress agent name why durationMs
                    (swept(normalizedAddress := None))
         | None \<Rightarrow> takeClaim now normalizedAddress agent name why durationMs swept)"

text \<open>\<^verbatim>\<open>releaseToken(tokenAddress, agentId)\<close>: a no-op unless the caller holds the claim.\<close>

definition releaseToken :: "string \<Rightarrow> string \<Rightarrow> claims \<Rightarrow> claims" where
  "releaseToken tokenAddr agent cs =
     (let normalizedAddress = toLowerCase tokenAddr
      in case cs normalizedAddress of
           None \<Rightarrow> cs
         | Some existing \<Rightarrow>
             if agentId existing \<noteq> agent then cs
             else cs(normalizedAddress := None))"

subsection \<open>Position lifecycle (base-agent)\<close>

text \<open>Division of \<^verbatim>\<open>bigint\<close> values truncates toward zero. Every divisor below is a
  positive constant or is tested to be positive first, as in the source, so the
  \<^verbatim>\<open>RangeError\<close> of a division by zero cannot occur.\<close>

definition bigint_div :: "int \<Rightarrow> int \<Rightarrow> int" where
  "bigint_div a b = sgn a * sgn b * (\<bar>a\<bar> div \<bar>b\<bar>)"

record TrailingState =
  peakPnlPct :: real
  lastUpdated :: real

definition STALE_HOLD_MINUTES :: real where
  "STALE_HOLD_MINUTES = 90"

datatype exitType = Partial | Full

text \<open>The reason of a sell decision is a message built from a fixed label and formatted
  numbers; the model keeps the label (as constructor or string) and the numbers.\<close>

datatype sellReason =
    NoCostBasis
  | Hold
  | ProfitTarget string real
  | StopLoss real
  | TrailingStop real real
  | TimeProfit real real
  | TimeStop real real
  | ExtendedHold real real
  | StalePosition real real

record SellDecision =
  sell :: bool
  reason :: sellReason
  exitType :: exitType

fun isTrailingStop :: "sellReason \<Rightarrow> bool" where
  "isTrailingStop (TrailingStop dropped peak) = True"
| "isTrailingStop other = False"

text \<open>\<^verbatim>\<open>Number((unrealizedPnl * 10000n) / costBasis) / 100\<close>, as the exact quotient.\<close>

definition pnlPercentOf :: "int \<Rightarrow> int \<Rightarrow> real" where
  "pnlPercentOf unrealizedPnl costBasis =
     real_of_int (bigint_div (unrealizedPnl * 10000) costBasis) / 100"

text \<open>The same expression as the double the code computes. \<open>rnd\<close> rounds a real to the
  nearest double; \<^verbatim>\<open>Number(...)\<close> rounds the bigint and the division rounds again.
  Amounts are 256-bit integers, so no value here reaches the overflow threshold of
  doubles and \<open>rnd\<close> returns a finite number. The rounding is a parameter: the theorems
  hold for every rounding.\<close>

definition pnlPercentDouble :: "(real \<Rightarrow> real) \<Rightarrow> int \<Rightarrow> int \<Rightarrow> real" where
  "pnlPercentDouble rnd unrealizedPnl costBasis =
     rnd (rnd (real_of_int (bigint_div (unrealizedPnl * 10000) costBasis)) / 100)"

text \<open>The \<^verbatim>\<open>pnlPercent\<close> of \<^verbatim>\<open>evaluateHoldings\<close>, which feeds the peak of the trailing
  state: 0 for a Holding without a positive cost basis.\<close>

definition holdingPnlPercent :: "(real \<Rightarrow> real) \<Rightarrow> int \<Rightarrow> int \<Rightarrow> real" where
  "holdingPnlPercent rnd unrealizedPnl costBasis =
     (if costBasis > 0 then pnlPercentDouble rnd unrealizedPnl costBasis else 0)"

text \<open>\<^verbatim>\<open>checkStrategyProfitTargets(pnlPercent)\<close>, a switch on \<^verbatim>\<open>this.strategy\<close>.\<close>

definition checkStrategyProfitTargets :: "string \<Rightarrow> real \<Rightarrow> SellDecision" where
  "checkStrategyProfitTargets strat pnlPercent =
     (let hold = \<lparr>sell = False, reason = Hold, exitType = Full\<rparr>;
          target = (\<lambda>label kind. \<lparr>sell = True, reason = ProfitTarget label pnlPercent, exitType = kind\<rparr>)
      in if strat = ''sniper'' then
           (if pnlPercent \<ge> 30 then target ''Snipe moon'' Full
            else if pnlPercent \<ge> 15 then target ''Snipe profit'' Partial
            else hold)
         else if strat = ''alpha_hunter'' then
           (if pnlPercent \<ge> 20 then target ''Alpha moon'' Full
            else if pnlPercent \<ge> 12 then target ''Alpha profit'' Partial
            else hold)
         else if strat = ''diamond_hands'' then
           (if pnlPercent \<ge> 60 then target ''Diamond 60%'' Full
            else if pnlPercent \<ge> 30 then target ''Diamond big win'' Partial
            else if pnlPercent \<ge> 20 then target ''Diamond partial'' Partial
            else hold)
         else if strat = ''swing_trader'' then
           (if pnlPercent \<ge> 18 then target ''Swing target'' Full
            else if pnlPercent \<ge> 8 then target ''Swing partial'' Partial
            else hold)
         else if strat = ''degen_ape'' then
           (if pnlPercent \<ge> 60 then target ''Degen 60%'' Full
            else if pnlPercent \<ge> 30 then target ''Degen big win'' Partial
            else if pnlPercent \<ge> 15 then target ''Degen partial'' Partial
            else hold)
         else if strat = ''volume_watcher'' then
           (if pnlPercent \<ge> 20 then target ''Volume target'' Full
            else if pnlPercent \<ge> 12 then target ''Volume partial'' Partial
            else hold)
         else if strat = ''trend_follower'' then
           (if pnlPercent \<ge> 25 then target ''Trend target'' Full
            else if pnlPercent \<ge> 12 then target ''Trend partial'' Partial
            else hold)
         else if strat = ''contrarian'' then
           (if pnlPercent \<ge> 20 then target ''Contrarian exit'' Full
            else if pnlPercent \<ge> 12 then target ''Contrarian partial'' Partial
            else hold)
         else hold)"

text \<open>\<^verbatim>\<open>getTrailingStopThreshold()\<close>\<close>

definition getTrailingStopThreshold :: "string \<Rightarrow> real" where
  "getTrailingStopThreshold strat =
     (if strat = ''sniper'' then 8
      else if strat = ''alpha_hunter'' then 10
      else if strat = ''diamond_hands'' then 15
      else if strat = ''swing_trader'' then 8
      else if strat = ''degen_ape'' then 12
      else if strat = ''volume_watcher'' then 10
      else if strat = ''trend_follower'' then 10
      else if strat = ''contrarian'' then 10
      else 10)"

text \<open>\<^verbatim>\<open>evaluateSellCondition(_symbol, costBasis, _currentValue, unrealizedPnl, trailing,
  holdDurationMinutes)\<close>; the first argument is the rounding of doubles, the second
  \<^verbatim>\<open>this.strategy\<close>. The trailing drop is the difference of two doubles, rounded.\<close>

definition evaluateSellCondition ::
  "(real \<Rightarrow> real) \<Rightarrow> string \<Rightarrow> string \<Rightarrow> int \<Rightarrow> int \<Rightarrow> int \<Rightarrow> TrailingState \<Rightarrow> real \<Rightarrow> SellDecision" where
  "evaluateSellCondition rnd strat symbol costBasis currentValue unrealizedPnl trailing holdDurationMinutes =
     (if costBasis \<le> 0 then \<lparr>sell = False, reason = NoCostBasis, exitType = Full\<rparr>
      else
        let pnlPercent = pnlPercentDouble rnd unrealizedPnl costBasis;
            profitCheck = checkStrategyProfitTargets strat pnlPercent
        in if sell profitCheck then profitCheck
        else
          let stopLoss = (if strat = ''sniper'' \<or> strat = ''alpha_hunter'' then - 5 else - 7 :: real)
          in if pnlPercent \<le> stopLoss then
               \<lparr>sell = True, reason = StopLoss pnlPercent, exitType = Full\<rparr>
          else
            let trailingDropPct = rnd (peakPnlPct trailing - pnlPercent);
                trailingThreshold = getTrailingStopThreshold strat
            in if peakPnlPct trailing > 5 \<and> trailingDropPct > trailingThreshold then
                 \<lparr>sell = True, reason = TrailingStop trailingDropPct (peakPnlPct trailing),
                  exitType = (if pnlPercent > 0 then Full else Full)\<rparr>
            else if holdDurationMinutes \<ge> 20 \<and> pnlPercent \<ge> 8 then
                 \<lparr>sell = True, reason = TimeProfit pnlPercent holdDurationMinutes, exitType = Full\<rparr>
            else if holdDurationMinutes \<ge> 30 \<and> pnlPercent \<ge> 3 then
                 \<lparr>sell = True, reason = TimeProfit pnlPercent holdDurationMinutes, exitType = Full\<rparr>
            else if holdDurationMinutes \<ge> 40 \<and> pnlPercent \<le> - 3 then
                 \<lparr>sell = True, reason = TimeStop pnlPercent holdDurationMinutes, exitType = Full\<rparr>
            else if holdDurationMinutes \<ge> 60 \<and> pnlPercent \<le> - 5 then
                 \<lparr>sell = True, reason = ExtendedHold pnlPercent holdDurationMinutes, exitType = Full\<rparr>
            else if holdDurationMinutes \<ge> STALE_HOLD_MINUTES then
                 \<lparr>sell = True, reason = StalePosition holdDurationMinutes pnlPercent, exitType = Full\<rparr>
            else \<lparr>sell = False, reason = Hold, exitType = Full\<rparr>)"

text \<open>\<^verbatim>\<open>calculateSellAmount(totalBalance, _pnlPercent, exitType)\<close>\<close>

definition calculateSellAmount :: "int \<Rightarrow> real \<Rightarrow> exitType \<Rightarrow> int" where
  "calculateSellAmount totalBalance pnlPercent exit =
     (if exit = Full then totalBalance
      else
        let sellPct = 50;
            sellAmount = bigint_div (totalBalance * sellPct) 100;
            minSellAmount = bigint_div totalBalance 4
        in if sellAmount > minSellAmount then sellAmount else minSellAmount)"

text \<open>The persisted Holding: amount held and cost basis, in base units.\<close>

record Holding =
  amount :: int
  costBasis :: int

text \<open>\<^verbatim>\<open>executeSell(holding, sellAmount, _currentValue, costBasis, reason, isFullExit)\<close>.
  The two last arguments are the results of the external calls: \<open>sold\<close> is the
  \<^verbatim>\<open>amountOut\<close> of \<^verbatim>\<open>sellToken\<close> (\<open>None\<close> when it throws: the catch block logs and
  changes nothing), \<open>vaultAfter\<close> the amount \<^verbatim>\<open>getVaultAgentHolding\<close> reports after the
  sale (\<open>None\<close> when that promise rejects and \<^verbatim>\<open>.catch(() => sellAmount)\<close> applies).
  The result is the Holding afterwards (\<open>None\<close> when deleted) and the realized PnL
  written to the Trade record.\<close>

definition executeSell ::
  "Holding \<Rightarrow> int \<Rightarrow> int \<Rightarrow> int \<Rightarrow> bool \<Rightarrow> int option \<Rightarrow> int option \<Rightarrow> Holding option \<times> int option" where
  "executeSell holding sellAmount currentValue cost isFullExit sold vaultAfter =
     (case sold of
        None \<Rightarrow> (Some holding, None)
      | Some amountOut \<Rightarrow>
          let totalBalance = (case vaultAfter of Some a \<Rightarrow> a + sellAmount | None \<Rightarrow> sellAmount);
              proportionalCost =
                (if totalBalance > 0 then bigint_div (cost * sellAmount) totalBalance else cost);
              realizedPnl = amountOut - proportionalCost
          in if isFullExit then (None, Some realizedPnl)
             else
               let remainingCost = cost - proportionalCost
               in (Some (holding\<lparr>costBasis := (if remainingCost > 0 then remainingCost else 0)\<rparr>),
                   Some realizedPnl))"

text \<open>The sell step of \<^verbatim>\<open>evaluateHoldings\<close>: the amount comes from
  \<^verbatim>\<open>calculateSellAmount\<close>, the cost basis from the Holding, and the exit is full exactly
  when the whole balance is sold (\<^verbatim>\<open>sellAmount === balance\<close>).\<close>

definition sellTriggered ::
  "Holding \<Rightarrow> int \<Rightarrow> int \<Rightarrow> real \<Rightarrow> exitType \<Rightarrow> int option \<Rightarrow> int option \<Rightarrow> Holding option \<times> int option" where
  "sellTriggered holding balance monValue pnlPercent exit sold vaultAfter =
     (let cost = costBasis holding;
          sellAmount = calculateSellAmount balance pnlPercent exit
      in executeSell holding sellAmount monValue cost (sellAmount = balance) sold vaultAfter)"

subsection \<open>Market data (nadfun api types)\<close>

text \<open>A string field that holds a number. \<open>Absent\<close> is \<^verbatim>\<open>undefined\<close> or the empty
  string (both falsy), \<open>Unparsable\<close> a string for which \<^verbatim>\<open>parseFloat\<close> returns
  \<^verbatim>\<open>NaN\<close>, \<open>Parsed r\<close> a string that \<^verbatim>\<open>parseFloat\<close> reads as \<open>r\<close>.
  A number that may be \<^verbatim>\<open>NaN\<close> is a \<^typ>\<open>real option\<close> with \<open>None\<close> for \<^verbatim>\<open>NaN\<close>;
  every comparison with \<^verbatim>\<open>NaN\<close> is false.\<close>

datatype numstr = Absent | Unparsable | Parsed real

fun orZero :: "numstr \<Rightarrow> numstr" where
  "orZero Absent = Parsed 0"
| "orZero s = s"

fun parseFloat :: "numstr \<Rightarrow> real option" where
  "parseFloat (Parsed r) = Some r"
| "parseFloat s = None"

definition nan_lt :: "real option \<Rightarrow> real \<Rightarrow> bool" where
  "nan_lt x c = (case x of None \<Rightarrow> False | Some v \<Rightarrow> v < c)"

definition nan_gt :: "real option \<Rightarrow> real \<Rightarrow> bool" where
  "nan_gt x c = (case x of None \<Rightarrow> False | Some v \<Rightarrow> v > c)"

definition nan_le :: "real option \<Rightarrow> real \<Rightarrow> bool" where
  "nan_le x c = (case x of None \<Rightarrow> False | Some v \<Rightarrow> v \<le> c)"

record TokenInfo =
  token_id :: string
  name :: string
  symbol :: string
  created_at :: real

record MarketInfo =
  market_type :: string
  reserve_native :: numstr
  price :: numstr
  price_native :: numstr
  volume :: numstr
  holder_count :: "real option"

record RecentToken =
  token_info :: TokenInfo
  market_info :: "MarketInfo option"
  percent :: "real option"
  percent_1h :: "real option"

record TokenMarketData =
  price :: numstr
  market_cap :: numstr
  volume_24h :: numstr
  price_change_1h :: "real option"
  price_change_24h :: "real option"
  holder_count :: "real option"
  is_graduated :: "bool option"

record TokenMarketPair =
  token :: RecentToken
  market :: "TokenMarketData option"

subsection \<open>Market regime detector (market-regime)\<close>

datatype MarketRegime = Bull | Bear | Sideways

text \<open>The reasons are messages with formatted numbers; the model keeps one constructor
  per message and the number shown.\<close>

datatype regimeReason =
    InsufficientData
  | Avg1hChange real
  | Avg24hChange real
  | BroadRally real
  | BroadDecline real
  | HighAvgVolume real
  | LowVolume real
  | ActiveTokenCreation nat
  | LowTokenCreation nat
  | RegimeBull
  | RegimeBear
  | RegimeSideways

record RegimeAnalysis =
  regime :: MarketRegime
  confidence :: int
  avgPriceChange1h :: "real option"
  avgPriceChange24h :: "real option"
  positiveTokenPct :: "real option"
  avgVolume :: "real option"
  newTokenRate :: nat
  reasons :: "regimeReason list"

text \<open>\<^verbatim>\<open>xs.reduce((s, c) => s + c, 0) / n\<close>; the quotient \<^verbatim>\<open>0 / 0\<close> is \<^verbatim>\<open>NaN\<close>.\<close>

definition average :: "real list \<Rightarrow> real option" where
  "average xs = (if xs = [] then None else Some (sum_list xs / real (length xs)))"

text \<open>The same over numbers that may be \<^verbatim>\<open>NaN\<close>: one \<^verbatim>\<open>NaN\<close> makes the sum \<^verbatim>\<open>NaN\<close>.\<close>

definition average_nan :: "real option list \<Rightarrow> real option" where
  "average_nan xs =
     (if xs = [] \<or> None \<in> set xs then None
      else Some (sum_list (map the xs) / real (length xs)))"

text \<open>The point totals of \<^verbatim>\<open>detectMarketRegime\<close>: the block from
  \<^verbatim>\<open>let bullScore = 0\<close> to the last \<^verbatim>\<open>reasons.push\<close> before the regime is
  determined. The result is \<open>(bullScore, bearScore, reasons)\<close>.\<close>

definition regimePoints ::
  "real option \<Rightarrow> real option \<Rightarrow> real option \<Rightarrow> real option \<Rightarrow> nat \<Rightarrow> int \<times> int \<times> regimeReason list" where
  "regimePoints avg1h avg24h positivePct avgVol tokenRate =
     (let (bull1, bear1, r1) =
            (if nan_gt avg1h 5 then (30, 0, [Avg1hChange (the avg1h)])
             else if nan_lt avg1h (- 5) then (0, 30, [Avg1hChange (the avg1h)])
             else (0, 0, []));
          (bull2, bear2, r2) =
            (if nan_gt avg24h 10 then (bull1 + 20, bear1, r1 @ [Avg24hChange (the avg24h)])
             else if nan_lt avg24h (- 10) then (bull1, bear1 + 20, r1 @ [Avg24hChange (the avg24h)])
             else (bull1, bear1, r1));
          (bull3, bear3, r3) =
            (if nan_gt positivePct 65 then (bull2 + 25, bear2, r2 @ [BroadRally (the positivePct)])
             else if nan_lt positivePct 35 then (bull2, bear2 + 25, r2 @ [BroadDecline (the positivePct)])
             else (bull2, bear2, r2));
          (bull4, bear4, r4) =
            (if nan_gt avgVol 50000 then (bull3 + 10, bear3, r3 @ [HighAvgVolume (the avgVol / 1000)])
             else if nan_lt avgVol 100 then (bull3, bear3 + 5, r3 @ [LowVolume (the avgVol)])
             else (bull3, bear3, r3))
      in if tokenRate > 20 then (bull4 + 15, bear4, r4 @ [ActiveTokenCreation tokenRate])
         else if tokenRate < 5 then (bull4, bear4 + 10, r4 @ [LowTokenCreation tokenRate])
         else (bull4, bear4, r4))"

text \<open>The aggregate metrics of \<^verbatim>\<open>detectMarketRegime\<close>, from the pairs that have market
  data. \<open>nowSeconds\<close> is \<^verbatim>\<open>Math.floor(Date.now() / 1000)\<close>.\<close>

definition withMarket :: "TokenMarketPair list \<Rightarrow> TokenMarketData list" where
  "withMarket tokenDataPairs = map (the \<circ> market) (filter (\<lambda>p. market p \<noteq> None) tokenDataPairs)"

definition priceChanges1h :: "TokenMarketData list \<Rightarrow> real list" where
  "priceChanges1h ms =
     filter (\<lambda>c. \<bar>c\<bar> < 500) (map (\<lambda>m. case price_change_1h m of None \<Rightarrow> 0 | Some c \<Rightarrow> c) ms)"

definition priceChanges24h :: "TokenMarketData list \<Rightarrow> real list" where
  "priceChanges24h ms =
     filter (\<lambda>c. \<bar>c\<bar> < 1000) (map (\<lambda>m. case price_change_24h m of None \<Rightarrow> 0 | Some c \<Rightarrow> c) ms)"

definition volumesMon :: "TokenMarketData list \<Rightarrow> real option list" where
  "volumesMon ms = map (\<lambda>m. map_option (\<lambda>w. w / 10 ^ 18) (parseFloat (orZero (volume_24h m)))) ms"

definition positivePctOf :: "real list \<Rightarrow> real option" where
  "positivePctOf cs =
     (if cs = [] then None
      else Some (real (length (filter (\<lambda>c. c > 0) cs)) / real (length cs) * 100))"

definition newTokenRateOf :: "real \<Rightarrow> TokenMarketPair list \<Rightarrow> nat" where
  "newTokenRateOf nowSeconds tokenDataPairs =
     length (filter (\<lambda>p. nowSeconds - created_at (token_info (token p)) < 3600) tokenDataPairs)"

text \<open>\<^verbatim>\<open>detectMarketRegime(tokenDataPairs)\<close>\<close>

definition detectMarketRegime :: "real \<Rightarrow> TokenMarketPair list \<Rightarrow> RegimeAnalysis" where
  "detectMarketRegime nowSeconds tokenDataPairs =
     (let ms = withMarket tokenDataPairs
      in if length ms < 5 then
           \<lparr>regime = Sideways, confidence = 20, avgPriceChange1h = Some 0,
            avgPriceChange24h = Some 0, positiveTokenPct = Some 50, avgVolume = Some 0,
            newTokenRate = 0, reasons = [InsufficientData]\<rparr>
         else
           let avg1h = average (priceChanges1h ms);
               avg24h = average (priceChanges24h ms);
               positivePct = positivePctOf (priceChanges1h ms);
               avgVol = average_nan (volumesMon ms);
               tokenRate = newTokenRateOf nowSeconds tokenDataPairs;
               (bullScore, bearScore, rs) = regimePoints avg1h avg24h positivePct avgVol tokenRate;
               (reg, conf, r) =
                 (if bullScore > bearScore + 15 then
                    (Bull, min 90 (50 + bullScore - bearScore), RegimeBull)
                  else if bearScore > bullScore + 15 then
                    (Bear, min 90 (50 + bearScore - bullScore), RegimeBear)
                  else (Sideways, max 30 (70 - \<bar>bullScore - bearScore\<bar>), RegimeSideways))
           in \<lparr>regime = reg, confidence = conf, avgPriceChange1h = avg1h,
               avgPriceChange24h = avg24h, positiveTokenPct = positivePct, avgVolume = avgVol,
               newTokenRate = tokenRate, reasons = rs @ [r]\<rparr>)"

text \<open>The point totals that \<^verbatim>\<open>detectMarketRegime\<close> computes for a batch.\<close>

definition regimePointsOf :: "real \<Rightarrow> TokenMarketPair list \<Rightarrow> int \<times> int \<times> regimeReason list" where
  "regimePointsOf nowSeconds tokenDataPairs =
     (let ms = withMarket tokenDataPairs
      in regimePoints (average (priceChanges1h ms)) (average (priceChanges24h ms))
           (positivePctOf (priceChanges1h ms)) (average_nan (volumesMon ms))
           (newTokenRateOf nowSeconds tokenDataPairs))"

text \<open>Example data: a token created at second 1000 with 1000 MON of volume, 50 holders
  and the given 1h price change; and a batch of five of them, two rising and three
  falling by one percent.\<close>

definition quietPair :: "real \<Rightarrow> TokenMarketPair" where
  "quietPair change1h =
     \<lparr>token = \<lparr>token_info = \<lparr>token_id = ''0x01'', name = ''Quiet'', symbol = ''QT'', created_at = 1000\<rparr>,
               market_info = None, percent = None, percent_1h = None\<rparr>,
      market = Some \<lparr>price = Parsed 1, market_cap = Parsed 1, volume_24h = Parsed (1000 * 10 ^ 18),
                     price_change_1h = Some change1h, price_change_24h = Some 0,
                     holder_count = Some 50, is_graduated = Some False\<rparr>\<rparr>"

definition quietBatch :: "TokenMarketPair list" where
  "quietBatch = [quietPair 1, quietPair 1, quietPair (- 1), quietPair (- 1), quietPair (- 1)]"

subsection \<open>Signals and the advisory call (signal-engine, llm-confirm, llm-decision-maker)\<close>

text \<open>\<^verbatim>\<open>MarketSignal\<close>. Every scorer builds the score from integer constants, so the
  score is an \<^typ>\<open>int\<close>. The \<^verbatim>\<open>reasons\<close> and \<^verbatim>\<open>metrics\<close> fields are text for the
  log and the prompt; no decision reads them and the model leaves them out.\<close>

record MarketSignal =
  tokenAddress :: string
  tokenSymbol :: string
  tokenName :: string
  score :: int

text \<open>What the chat-completion request of \<^verbatim>\<open>confirmTradeWithLLM\<close> does, as far as the
  \<^verbatim>\<open>try\<close> block can tell: the request or \<^verbatim>\<open>JSON.parse\<close> throws (network failure,
  timeout, malformed output), the response has no content, or the content parses to an
  object whose \<^verbatim>\<open>approved\<close> field is truthy or not and whose \<^verbatim>\<open>reasoning\<close> may be
  missing.\<close>

datatype confirmReply =
    ConfirmThrows
  | ConfirmNoContent
  | ConfirmParsed bool "string option"

datatype confirmReasoning =
    NoLLMResponse
  | NoReasoningProvided
  | Reasoning string
  | LLMUnavailableFallback int

record LLMDecision =
  approved :: bool
  reasoning :: confirmReasoning

text \<open>\<^verbatim>\<open>confirmTradeWithLLM(strategy, signal, action, currentHoldings, recentTrades,
  regime)\<close>. All arguments but the signal's score only enter the prompt text; the model
  keeps the strategy and the signal, and takes the reply of the request.\<close>

definition confirmTradeWithLLM :: "string \<Rightarrow> MarketSignal \<Rightarrow> confirmReply \<Rightarrow> LLMDecision" where
  "confirmTradeWithLLM strat signal reply =
     (case reply of
        ConfirmNoContent \<Rightarrow> \<lparr>approved = False, reasoning = NoLLMResponse\<rparr>
      | ConfirmParsed ok why \<Rightarrow>
          \<lparr>approved = ok,
           reasoning = (case why of None \<Rightarrow> NoReasoningProvided | Some text \<Rightarrow> Reasoning text)\<rparr>
      | ConfirmThrows \<Rightarrow>
          \<lparr>approved = (score signal \<ge> 85), reasoning = LLMUnavailableFallback (score signal)\<rparr>)"

text \<open>\<^verbatim>\<open>makeAgentDecision(strategy, tokenData, recentTrades, currentHoldings,
  maxPositions)\<close>, the call \<^verbatim>\<open>scanAndBuy\<close> makes for each candidate. Its arguments
  only enter the prompt (the signal's score is not among them). A parsed reply carries
  the \<^verbatim>\<open>action\<close> string, and \<^verbatim>\<open>confidence\<close> and \<^verbatim>\<open>targetAmount\<close> when present
  and truthy.\<close>

datatype decisionAction = BUY | SKIP | SELL

datatype decisionReply =
    DecisionThrows string
  | DecisionNoContent
  | DecisionParsed string "real option" "real option" string

datatype decisionReasoning =
    NoDecisionResponse
  | LLMError string
  | DecisionText string

record AgentDecision =
  action :: decisionAction
  confidence :: real
  reasoning :: decisionReasoning
  targetAmount :: "real option"

definition makeAgentDecision :: "string \<Rightarrow> decisionReply \<Rightarrow> AgentDecision" where
  "makeAgentDecision strat reply =
     (case reply of
        DecisionNoContent \<Rightarrow>
          \<lparr>action = SKIP, confidence = 0, reasoning = NoDecisionResponse, targetAmount = None\<rparr>
      | DecisionParsed act conf target why \<Rightarrow>
          let act' = (if act = ''BUY'' then BUY else if act = ''SELL'' then SELL else SKIP);
              conf' = max 0 (min 100 (case conf of None \<Rightarrow> 50 | Some c \<Rightarrow> if c = 0 then 50 else c));
              target' = (if act' = BUY \<and> (target = None \<or> target = Some 0)
                         then Some (if conf' > 70 then 10 else 5) else target)
          in \<lparr>action = act', confidence = conf', reasoning = DecisionText why, targetAmount = target'\<rparr>
      | DecisionThrows message \<Rightarrow>
          \<lparr>action = SKIP, confidence = 0, reasoning = LLMError message, targetAmount = None\<rparr>)"

subsection \<open>Technical indicators (technical-analysis)\<close>

text \<open>A result typed \<^verbatim>\<open>number | null\<close> is a \<^typ>\<open>real option\<close> with \<open>None\<close> for
  \<^verbatim>\<open>null\<close>. The period is positive at every call (14, 5 and 20); the arithmetic for
  a period of 0, which JavaScript answers with \<^verbatim>\<open>NaN\<close> or \<^verbatim>\<open>Infinity\<close>, is outside
  the model.\<close>

datatype crossover = Bullish | Bearish | Neutral

datatype volumeTrend = Increasing | Decreasing | Stable











record TechnicalIndicators =
  rsi :: "real option"
  smaShort :: "real option"
  smaLong :: "real option"
  emaShort :: "real option"
  emaLong :: "real option"
  vwap :: "real option"
  currentPrice :: real
  priceVsVwap :: "real option"
  smaCrossover :: crossover
  emaCrossover :: crossover
  volatility :: "real option"
  volumeTrend :: volumeTrend
  momentum :: "real option"

subsection \<open>Holder concentration (whale-analysis)\<close>

datatype concentration = High | Moderate | Distributed

record WhaleAnalysis =
  totalHolders :: real
  top1Pct :: real
  top5Pct :: real
  top10Pct :: real
  whaleCount :: real
  microHolders :: real
  concentration :: concentration
  hasLargeWhale :: bool

text \<open>\<^verbatim>\<open>whaleScoreAdjustment(wa, strategy)\<close>: the \<^verbatim>\<open>adjustment\<close> field of the result.\<close>

definition whaleScoreAdjustment :: "WhaleAnalysis \<Rightarrow> string \<Rightarrow> int" where
  "whaleScoreAdjustment wa strat =
     (if totalHolders wa = 0 then 0
      else
        let holderPts =
              (if totalHolders wa > 50 then 8
               else if totalHolders wa > 20 then 4
               else if totalHolders wa < 5 then - 10
               else 0);
            whalePts =
              (if hasLargeWhale wa then (if strat = ''degen_ape'' then - 3 else - 12) else 0);
            concentrationPts =
              (if concentration wa = Distributed then
                 (if strat = ''diamond_hands'' then 12 else 6)
               else if concentration wa = High then
                 (if strat \<noteq> ''degen_ape'' \<and> strat \<noteq> ''alpha_hunter'' then - 8 else 0)
               else 0);
            smartMoneyPts =
              (if whaleCount wa \<ge> 3 \<and> whaleCount wa \<le> 6 \<and> concentration wa \<noteq> High then 5 else 0);
            organicPts = (if microHolders wa > 30 then 5 else 0);
            adjustment = holderPts + whalePts + concentrationPts + smartMoneyPts + organicPts
        in max (- 20) (min 20 adjustment))"

subsection \<open>Score adjustments (technical-analysis, market-regime)\<close>

text \<open>A \<^verbatim>\<open>number | null\<close> used as a condition is falsy when \<^verbatim>\<open>null\<close> or 0.\<close>

definition falsy :: "real option \<Rightarrow> bool" where
  "falsy x = (x = None \<or> x = Some 0)"

text \<open>\<^verbatim>\<open>technicalScoreAdjustment(ta, strategy)\<close>: the \<^verbatim>\<open>adjustment\<close> field of the result.\<close>

definition technicalScoreAdjustment :: "TechnicalIndicators \<Rightarrow> string \<Rightarrow> int" where
  "technicalScoreAdjustment ta strat =
     (if falsy (rsi ta) \<and> falsy (vwap ta) \<and> falsy (smaShort ta) then 0
      else
        let rsiPts =
              (case rsi ta of
                 None \<Rightarrow> 0
               | Some r \<Rightarrow>
                   if strat = ''contrarian'' then
                     (if r < 25 then 20 else if r < 35 then 10 else if r > 75 then - 15 else 0)
                   else if strat = ''trend_follower'' \<or> strat = ''swing_trader'' then
                     (if r \<ge> 40 \<and> r \<le> 65 then 10 else if r > 80 then - 15
                      else if r < 25 then - 10 else 0)
                   else (if r > 80 then - 10 else if r < 25 then 5 else 0));
            emaPts =
              (if emaCrossover ta \<noteq> Neutral then
                 (if strat = ''trend_follower'' \<or> strat = ''swing_trader'' then
                    (if emaCrossover ta = Bullish then 15 else - 15)
                  else (if emaCrossover ta = Bullish then 8 else - 8))
               else 0);
            vwapPts =
              (case priceVsVwap ta of
                 None \<Rightarrow> 0
               | Some v \<Rightarrow>
                   if strat = ''contrarian'' then (if v < - 5 then 10 else 0)
                   else if strat = ''volume_watcher'' \<or> strat = ''trend_follower'' then
                     (if v > 3 then 8 else if v < - 5 then - 5 else 0)
                   else 0);
            volumePts =
              (if volumeTrend ta = Increasing then (if strat = ''volume_watcher'' then 12 else 5)
               else if volumeTrend ta = Decreasing then
                 (if strat = ''volume_watcher'' then - 10 else - 3)
               else 0);
            momentumPts =
              (case momentum ta of
                 None \<Rightarrow> 0
               | Some m \<Rightarrow>
                   if strat = ''alpha_hunter'' \<or> strat = ''degen_ape'' then (if m > 15 then 10 else 0)
                   else if strat = ''contrarian'' then (if m < - 15 then 10 else 0)
                   else 0);
            volatilityPts =
              (case volatility ta of
                 None \<Rightarrow> 0
               | Some v \<Rightarrow>
                   if strat = ''swing_trader'' then (if v > 0.1 then 8 else 0)
                   else if strat = ''diamond_hands'' then (if v > 0.2 then - 8 else 0)
                   else 0);
            adjustment = rsiPts + emaPts + vwapPts + volumePts + momentumPts + volatilityPts
        in max (- 30) (min 30 adjustment))"

text \<open>\<^verbatim>\<open>regimeStrategyBonus(regime, strategy)\<close>: the \<^verbatim>\<open>adjustment\<close> field, from the table
  \<^verbatim>\<open>bonuses[regime]?.[strategy] ?? 0\<close>.\<close>

definition regimeStrategyBonus :: "MarketRegime \<Rightarrow> string \<Rightarrow> int" where
  "regimeStrategyBonus reg strat =
     (case reg of
        Bull \<Rightarrow>
          (case map_of [(''alpha_hunter'', 10), (''degen_ape'', 15), (''trend_follower'', 12),
                        (''volume_watcher'', 8), (''swing_trader'', 5), (''diamond_hands'', 5),
                        (''sniper'', 8), (''contrarian'', - 10)] strat of
             Some adj \<Rightarrow> adj | None \<Rightarrow> 0)
      | Bear \<Rightarrow>
          (case map_of [(''contrarian'', 15), (''diamond_hands'', - 5), (''alpha_hunter'', - 10),
                        (''degen_ape'', - 15), (''trend_follower'', - 10), (''volume_watcher'', - 5),
                        (''swing_trader'', 5), (''sniper'', - 5)] strat of
             Some adj \<Rightarrow> adj | None \<Rightarrow> 0)
      | Sideways \<Rightarrow>
          (case map_of [(''swing_trader'', 10), (''contrarian'', 5), (''volume_watcher'', 5),
                        (''alpha_hunter'', 0), (''diamond_hands'', 0), (''degen_ape'', 0),
                        (''trend_follower'', - 5), (''sniper'', 0)] strat of
             Some adj \<Rightarrow> adj | None \<Rightarrow> 0))"

subsection \<open>Signal engine (signal-engine)\<close>

record TokenContext =
  token :: RecentToken
  market :: "TokenMarketData option"
  curveProgress :: "real option"
  ageSeconds :: real
  technical :: "TechnicalIndicators option"
  whaleData :: "WhaleAnalysis option"
  regime :: "MarketRegime option"

text \<open>\<^verbatim>\<open>volumeToMon(raw)\<close>: 0 when the parsed value is 0 or \<^verbatim>\<open>NaN\<close>.\<close>

definition volumeToMon :: "numstr \<Rightarrow> real" where
  "volumeToMon raw =
     (case parseFloat raw of
        None \<Rightarrow> 0
      | Some wei \<Rightarrow> if wei = 0 then 0 else wei / 10 ^ 18)"

text \<open>\<^verbatim>\<open>x && x > c\<close> and \<^verbatim>\<open>x && x < c\<close> for an optional number: false when the
  number is missing or 0.\<close>

definition truthy_gt :: "real option \<Rightarrow> real \<Rightarrow> bool" where
  "truthy_gt x c = (case x of None \<Rightarrow> False | Some v \<Rightarrow> v \<noteq> 0 \<and> v > c)"

definition truthy_lt :: "real option \<Rightarrow> real \<Rightarrow> bool" where
  "truthy_lt x c = (case x of None \<Rightarrow> False | Some v \<Rightarrow> v \<noteq> 0 \<and> v < c)"

text \<open>\<^verbatim>\<open>volumeToMon(ctx.market?.volume_24h || "0")\<close>, \<^verbatim>\<open>ctx.market?.holder_count || 0\<close>
  and the optional price changes and graduation flag of \<^verbatim>\<open>ctx.market\<close>.\<close>

definition ctxVol :: "TokenContext \<Rightarrow> real" where
  "ctxVol ctx =
     (case TokenContext.market ctx of
        None \<Rightarrow> volumeToMon (Parsed 0)
      | Some m \<Rightarrow> volumeToMon (orZero (volume_24h m)))"

definition ctxHolders :: "TokenContext \<Rightarrow> real" where
  "ctxHolders ctx =
     (case TokenContext.market ctx of
        None \<Rightarrow> 0
      | Some m \<Rightarrow> (case TokenMarketData.holder_count m of None \<Rightarrow> 0 | Some h \<Rightarrow> h))"

definition ctxChange1h :: "TokenContext \<Rightarrow> real option" where
  "ctxChange1h ctx = (case TokenContext.market ctx of None \<Rightarrow> None | Some m \<Rightarrow> price_change_1h m)"

definition ctxChange24h :: "TokenContext \<Rightarrow> real option" where
  "ctxChange24h ctx = (case TokenContext.market ctx of None \<Rightarrow> None | Some m \<Rightarrow> price_change_24h m)"

definition ctxGraduated :: "TokenContext \<Rightarrow> bool" where
  "ctxGraduated ctx =
     (case TokenContext.market ctx of None \<Rightarrow> False | Some m \<Rightarrow> is_graduated m = Some True)"

text \<open>\<^verbatim>\<open>baseScore(ctx)\<close>: the \<^verbatim>\<open>score\<close> field of the result.\<close>

definition baseScore :: "TokenContext \<Rightarrow> int" where
  "baseScore ctx =
     (case TokenContext.market ctx of
        None \<Rightarrow> 5
      | Some m \<Rightarrow>
          let vol = volumeToMon (orZero (volume_24h m));
              volumePts =
                (if vol > 10000000 then 15
                 else if vol > 1000000 then 10
                 else if vol > 100000 then 6
                 else if vol > 10000 then 2
                 else 0);
              holderPts =
                (if truthy_gt (TokenMarketData.holder_count m) 100 then 10
                 else if truthy_gt (TokenMarketData.holder_count m) 30 then 6
                 else if truthy_gt (TokenMarketData.holder_count m) 10 then 3
                 else 0);
              momentumPts =
                (if truthy_gt (price_change_1h m) 5 then 5
                 else if truthy_lt (price_change_1h m) (- 10) then - 10
                 else 0);
              taPts = (case technical ctx of None \<Rightarrow> 0 | Some ta \<Rightarrow> technicalScoreAdjustment ta ''base'');
              whalePts = (case whaleData ctx of None \<Rightarrow> 0 | Some wa \<Rightarrow> whaleScoreAdjustment wa ''base'')
          in 35 + volumePts + holderPts + momentumPts + taPts + whalePts)"

text \<open>\<^verbatim>\<open>strategyOverlay(ctx, strategy, score, reasons)\<close>: the new score.\<close>

definition strategyOverlay :: "TokenContext \<Rightarrow> string \<Rightarrow> int \<Rightarrow> int" where
  "strategyOverlay ctx strat points =
     (let taPts = (case technical ctx of None \<Rightarrow> 0 | Some ta \<Rightarrow> technicalScoreAdjustment ta strat);
          whalePts = (case whaleData ctx of None \<Rightarrow> 0 | Some wa \<Rightarrow> whaleScoreAdjustment wa strat);
          regimePts = (case TokenContext.regime ctx of None \<Rightarrow> 0 | Some reg \<Rightarrow> regimeStrategyBonus reg strat)
      in points + taPts + whalePts + regimePts)"

text \<open>\<^verbatim>\<open>buildSignal(ctx, score, reasons)\<close>: the score is clamped with
  \<^verbatim>\<open>Math.max(0, Math.min(100, score))\<close>.\<close>

definition buildSignal :: "TokenContext \<Rightarrow> int \<Rightarrow> MarketSignal" where
  "buildSignal ctx points =
     \<lparr>tokenAddress = token_id (token_info (TokenContext.token ctx)),
      tokenSymbol = symbol (token_info (TokenContext.token ctx)),
      tokenName = name (token_info (TokenContext.token ctx)),
      score = max 0 (min 100 points)\<rparr>"

text \<open>\<^verbatim>\<open>scoreSniper(ctx)\<close>. In each scorer the successive \<^verbatim>\<open>score += k\<close> blocks of the
  source are the named summands, in the source's order.\<close>

definition scoreSniper :: "TokenContext \<Rightarrow> MarketSignal" where
  "scoreSniper ctx =
     (let vol = ctxVol ctx;
          holders = ctxHolders ctx;
          age = ageSeconds ctx;
          agePts =
            (if age < 120 then
               (if vol > 5000 then 30 else if vol > 500 then 20 else if vol > 100 then 10 else 0)
             else if age < 300 then
               (if vol > 20000 \<and> holders > 5 then 25
                else if vol > 5000 \<and> holders > 3 then 15
                else if vol > 1000 then 5 else 0)
             else if age < 600 then
               (if vol > 50000 \<and> holders > 10 then 15 else 0)
             else - 20);
          growthPts =
            (if holders > 8 \<and> age < 180 then 15
             else if holders > 5 \<and> age < 300 then 8
             else 0);
          curvePts =
            (case curveProgress ctx of
               None \<Rightarrow> 0
             | Some progress \<Rightarrow>
                 if age < 600 then
                   (let progressPct = progress / 100
                    in if progressPct > 10 then 12 else if progressPct > 3 then 6 else 0)
                 else 0);
          pricePts = (if truthy_gt (ctxChange1h ctx) 0 \<and> age < 600 then 5 else 0)
      in buildSignal ctx
           (strategyOverlay ctx ''sniper'' (baseScore ctx + agePts + growthPts + curvePts + pricePts)))"

definition scoreAlphaHunter :: "TokenContext \<Rightarrow> MarketSignal" where
  "scoreAlphaHunter ctx =
     (let vol = ctxVol ctx;
          holders = ctxHolders ctx;
          age = ageSeconds ctx;
          windowPts =
            (if age \<ge> 120 \<and> age < 300 \<and> vol > 10000 then 25
             else if age \<ge> 300 \<and> age < 900 \<and> vol > 50000 then 15
             else if age < 120 \<and> vol > 2000 then 15
             else if age > 1800 then - 15
             else 0);
          adoptionPts = (if holders > 10 \<and> age < 600 then 10 else 0);
          pumpPts = (if vol > 50000 \<and> truthy_gt (ctxChange1h ctx) 5 then 10 else 0)
      in buildSignal ctx
           (strategyOverlay ctx ''alpha_hunter'' (baseScore ctx + windowPts + adoptionPts + pumpPts)))"

definition scoreDiamondHands :: "TokenContext \<Rightarrow> MarketSignal" where
  "scoreDiamondHands ctx =
     (let vol = ctxVol ctx;
          holders = ctxHolders ctx;
          agePts = (if ageSeconds ctx > 3600 then 10 else - 10);
          holderPts =
            (if holders > 200 then 15 else if holders > 50 then 8 else if holders < 20 then - 10 else 0);
          volumePts =
            (if vol > 5000000 then 12 else if vol > 500000 then 8 else if vol < 50000 then - 5 else 0);
          trend24hPts = (if truthy_gt (ctxChange24h ctx) 0 then 8 else 0);
          trend1hPts = (if truthy_gt (ctxChange1h ctx) 0 then 5 else 0);
          graduatedPts = (if ctxGraduated ctx then 10 else 0)
      in buildSignal ctx
           (strategyOverlay ctx ''diamond_hands''
              (baseScore ctx + agePts + holderPts + volumePts + trend24hPts + trend1hPts + graduatedPts)))"

definition scoreSwingTrader :: "TokenContext \<Rightarrow> MarketSignal" where
  "scoreSwingTrader ctx =
     (let vol = ctxVol ctx;
          liquidityPts = (if vol < 100000 then - 10 else if vol > 1000000 then 8 else 0);
          swingPts =
            (case ctxChange1h ctx of
               None \<Rightarrow> 0
             | Some change \<Rightarrow>
                 if change = 0 then 0
                 else if change > 15 then 20
                 else if change > 5 then 12
                 else if change < - 5 then - 15
                 else 0);
          confirmPts = (if truthy_gt (ctxChange1h ctx) 5 \<and> vol > 500000 then 10 else 0)
      in buildSignal ctx
           (strategyOverlay ctx ''swing_trader'' (baseScore ctx + liquidityPts + swingPts + confirmPts)))"

text \<open>\<^verbatim>\<open>s.includes(w)\<close>: \<open>w\<close> occurs in \<open>s\<close> as a contiguous substring.\<close>

fun includes_str :: "string \<Rightarrow> string \<Rightarrow> bool" where
  "includes_str [] w = (w = [])"
| "includes_str (c # cs) w = (take (length w) (c # cs) = w \<or> includes_str cs w)"

definition memeWords :: "string list" where
  "memeWords = [''meme'', ''pepe'', ''doge'', ''moon'', ''ape'', ''chad'', ''wojak'', ''based'',
                ''giga'', ''monkey'', ''cat'', ''dog'', ''frog'', ''nyan'', ''shib'', ''bonk'',
                ''cope'', ''wagmi'']"

definition scoreDegenApe :: "TokenContext \<Rightarrow> MarketSignal" where
  "scoreDegenApe ctx =
     (let vol = ctxVol ctx;
          holders = ctxHolders ctx;
          age = ageSeconds ctx;
          freshPts = (if age < 600 \<and> vol > 10000 \<and> holders > 5 then 15 else 0);
          lowerName = toLowerCase (name (token_info (TokenContext.token ctx)));
          memePts = (if list_ex (\<lambda>w. includes_str lowerName w) memeWords then 8 else 0);
          pumpPts =
            (if truthy_gt (ctxChange1h ctx) 30 \<and> vol > 1000000 then 20
             else if truthy_gt (ctxChange1h ctx) 15 \<and> vol > 100000 then 12
             else if truthy_gt (ctxChange1h ctx) 10 \<and> vol > 50000 then 5
             else 0);
          organicPts = (if holders > 20 \<and> age < 1800 then 8 else 0)
      in buildSignal ctx
           (strategyOverlay ctx ''degen_ape'' (baseScore ctx + freshPts + memePts + pumpPts + organicPts)))"

definition scoreVolumeWatcher :: "TokenContext \<Rightarrow> MarketSignal" where
  "scoreVolumeWatcher ctx =
     (let vol = ctxVol ctx;
          tierPts =
            (if vol > 50000000 then 25
             else if vol > 5000000 then 18
             else if vol > 1000000 then 12
             else if vol > 100000 then 5
             else 0);
          pricePts = (if truthy_gt (ctxChange1h ctx) 5 \<and> vol > 1000000 then 15 else 0);
          sustainedPts = (if truthy_gt (ctxChange24h ctx) 0 \<and> vol > 5000000 then 8 else 0)
      in buildSignal ctx
           (strategyOverlay ctx ''volume_watcher'' (baseScore ctx + tierPts + pricePts + sustainedPts)))"

definition scoreTrendFollower :: "TokenContext \<Rightarrow> MarketSignal" where
  "scoreTrendFollower ctx =
     (let vol = ctxVol ctx;
          liquidityPts = (if vol < 100000 then - 8 else 0);
          trend1hPts =
            (if truthy_gt (ctxChange1h ctx) 10 then 18
             else if truthy_gt (ctxChange1h ctx) 3 then 8
             else 0);
          trend24hPts =
            (if truthy_gt (ctxChange24h ctx) 20 then 12
             else if truthy_gt (ctxChange24h ctx) 5 then 6
             else 0);
          alignedPts =
            (if truthy_gt (ctxChange1h ctx) 3 \<and> truthy_gt (ctxChange24h ctx) 0 then 12 else 0);
          downtrendPts = (if truthy_lt (ctxChange1h ctx) (- 5) then - 20 else 0)
      in buildSignal ctx
           (strategyOverlay ctx ''trend_follower''
              (baseScore ctx + liquidityPts + trend1hPts + trend24hPts + alignedPts + downtrendPts)))"

definition scoreContrarian :: "TokenContext \<Rightarrow> MarketSignal" where
  "scoreContrarian ctx =
     (let vol = ctxVol ctx;
          holders = ctxHolders ctx;
          demandPts = (if vol < 100000 \<or> holders < 20 then - 20 else 0);
          oversoldPts =
            (if truthy_lt (ctxChange1h ctx) (- 15) \<and> holders > 50 then 25
             else if truthy_lt (ctxChange1h ctx) (- 8) \<and> holders > 20 then 15
             else if truthy_lt (ctxChange1h ctx) (- 5) \<and> holders > 15 then 8
             else 0);
          recoveryPts =
            (if truthy_lt (ctxChange24h ctx) (- 20) \<and> truthy_gt (ctxChange1h ctx) 0 then 20 else 0);
          overpumpedPts = (if truthy_gt (ctxChange1h ctx) 30 then - 15 else 0);
          graduatedPts = (if ctxGraduated ctx \<and> vol > 500000 then 8 else 0)
      in buildSignal ctx
           (strategyOverlay ctx ''contrarian''
              (baseScore ctx + demandPts + oversoldPts + recoveryPts + overpumpedPts + graduatedPts)))"

text \<open>\<^verbatim>\<open>STRATEGY_SCORERS\<close>: the lookup is \<open>None\<close> for a name that is not a key.\<close>

definition STRATEGY_SCORERS :: "string \<Rightarrow> (TokenContext \<Rightarrow> MarketSignal) option" where
  "STRATEGY_SCORERS =
     map_of [(''alpha_hunter'', scoreAlphaHunter), (''diamond_hands'', scoreDiamondHands),
             (''swing_trader'', scoreSwingTrader), (''degen_ape'', scoreDegenApe),
             (''volume_watcher'', scoreVolumeWatcher), (''trend_follower'', scoreTrendFollower),
             (''contrarian'', scoreContrarian), (''sniper'', scoreSniper)]"

text \<open>Example data: a token nobody trades (no volume, no holders, no price change) and
  a context for it, one hour old, without chart, holder or regime data.\<close>

definition deadToken :: RecentToken where
  "deadToken =
     \<lparr>token_info = \<lparr>token_id = ''0xdead'', name = ''Nothing'', symbol = ''NIL'', created_at = 0\<rparr>,
      market_info = None, percent = None, percent_1h = None\<rparr>"

definition deadContext :: TokenContext where
  "deadContext =
     \<lparr>token = deadToken,
      market = Some \<lparr>price = Parsed 0, market_cap = Parsed 0, volume_24h = Parsed 0,
                     price_change_1h = Some 0, price_change_24h = Some 0,
                     holder_count = Some 0, is_graduated = Some False\<rparr>,
      curveProgress = None, ageSeconds = 3600, technical = None, whaleData = None,
      regime = None\<rparr>"

subsection \<open>Quality filter (quality-filter)\<close>

datatype qualityReason =
    NoMarketData
  | InsufficientLiquidity "real option"
  | TooFewHolders real
  | TooYoung real
  | InvalidPrice
  | DumpingHard real
  | LowQualityScore int

record QualityCheckResult =
  passed :: bool
  reason :: "qualityReason option"
  score :: int

text \<open>\<^verbatim>\<open>checkTokenQuality(token)\<close>; \<open>nowSeconds\<close> is \<^verbatim>\<open>Math.floor(Date.now() / 1000)\<close>.
  The reserve, the price and the volume are parsed from strings and may be \<^verbatim>\<open>NaN\<close>.\<close>

definition checkTokenQuality :: "real \<Rightarrow> RecentToken \<Rightarrow> QualityCheckResult" where
  "checkTokenQuality nowSeconds tok =
     (case market_info tok of
        None \<Rightarrow> \<lparr>passed = False, reason = Some NoMarketData, score = 0\<rparr>
      | Some mkt \<Rightarrow>
          let reserve = map_option (\<lambda>w. w / 10 ^ 18) (parseFloat (orZero (reserve_native mkt)))
          in if nan_lt reserve 3 then
               \<lparr>passed = False, reason = Some (InsufficientLiquidity reserve), score = 0\<rparr>
          else
            let holders = (case MarketInfo.holder_count mkt of None \<Rightarrow> 0 | Some h \<Rightarrow> h)
            in if holders < 30 then
                 \<lparr>passed = False, reason = Some (TooFewHolders holders), score = 0\<rparr>
            else
              let ageSeconds = nowSeconds - created_at (token_info tok);
                  ageHours = ageSeconds / 3600
              in if ageHours < 2 then
                   \<lparr>passed = False, reason = Some (TooYoung ageHours), score = 0\<rparr>
              else
                let price = parseFloat (orZero (MarketInfo.price mkt))
                in if nan_le price 0 then
                     \<lparr>passed = False, reason = Some InvalidPrice, score = 0\<rparr>
                else
                  let priceChange1h = (case percent tok of None \<Rightarrow> 0 | Some c \<Rightarrow> c)
                  in if \<not> priceChange1h > - 15 then
                       \<lparr>passed = False, reason = Some (DumpingHard priceChange1h), score = 0\<rparr>
                  else
                    let pricePts =
                          (if priceChange1h > 10 then 20
                           else if priceChange1h > 0 then 10
                           else if priceChange1h > - 5 then 5
                           else - 10);
                        holderPts =
                          (if holders > 500 then 15 else if holders > 200 then 10
                           else if holders > 100 then 5 else 0);
                        liquidityPts =
                          (if nan_gt reserve 100 then 15 else if nan_gt reserve 50 then 10
                           else if nan_gt reserve 25 then 5 else 0);
                        agePts = (if ageHours > 72 then 10 else if ageHours > 24 then 5 else 0);
                        volume24h = map_option (\<lambda>w. w / 10 ^ 18) (parseFloat (orZero (volume mkt)));
                        volumeToReserveRatio =
                          (case (volume24h, reserve) of
                             (Some v, Some r) \<Rightarrow> Some (v / r)
                           | other \<Rightarrow> None);
                        ratioPts =
                          (if nan_gt volumeToReserveRatio 20 then - 15
                           else if nan_gt volumeToReserveRatio 5 \<and> nan_le volumeToReserveRatio 10 then 10
                           else if nan_gt volumeToReserveRatio 2 \<and> nan_le volumeToReserveRatio 5 then 5
                           else 0);
                        total = max 0 (min 100 (50 + pricePts + holderPts + liquidityPts + agePts + ratioPts))
                    in if total < 60 then
                         \<lparr>passed = False, reason = Some (LowQualityScore total), score = total\<rparr>
                       else \<lparr>passed = True, reason = None, score = total\<rparr>)"

subsection \<open>Agent specialization (agent-specialization)\<close>

text \<open>A \<^verbatim>\<open>TimeWindow\<close>; \<^verbatim>\<open>maxAge: Infinity\<close> is the absent bound, which never rejects.\<close>

record TimeWindow =
  minAge :: "real option"
  maxAge :: "real option"
  minCurveProgress :: "real option"
  maxCurveProgress :: "real option"
  enabled :: bool

definition AGENT_TIME_WINDOWS :: "string \<Rightarrow> TimeWindow option" where
  "AGENT_TIME_WINDOWS =
     map_of
       [(''sniper'', \<lparr>minAge = Some 60, maxAge = Some 180, minCurveProgress = None,
                      maxCurveProgress = None, enabled = False\<rparr>),
        (''alpha_hunter'', \<lparr>minAge = Some 180, maxAge = Some 600, minCurveProgress = None,
                            maxCurveProgress = None, enabled = False\<rparr>),
        (''volume_watcher'', \<lparr>minAge = Some 300, maxAge = Some 7200, minCurveProgress = None,
                              maxCurveProgress = None, enabled = True\<rparr>),
        (''trend_follower'', \<lparr>minAge = Some 3600, maxAge = Some 14400, minCurveProgress = None,
                              maxCurveProgress = None, enabled = False\<rparr>),
        (''contrarian'', \<lparr>minAge = Some 3600, maxAge = None, minCurveProgress = None,
                          maxCurveProgress = None, enabled = True\<rparr>),
        (''diamond_hands'', \<lparr>minAge = None, maxAge = None, minCurveProgress = Some 9500,
                             maxCurveProgress = Some 9999, enabled = False\<rparr>),
        (''swing_trader'', \<lparr>minAge = Some 7200, maxAge = None, minCurveProgress = None,
                            maxCurveProgress = None, enabled = False\<rparr>),
        (''degen_ape'', \<lparr>minAge = None, maxAge = None, minCurveProgress = None,
                         maxCurveProgress = None, enabled = False\<rparr>)]"

text \<open>\<^verbatim>\<open>isTokenInWindow(strategy, tokenAgeSeconds, curveProgress)\<close>: the \<^verbatim>\<open>allowed\<close>
  field of the result.\<close>

definition isTokenInWindow :: "string \<Rightarrow> real \<Rightarrow> real option \<Rightarrow> bool" where
  "isTokenInWindow strat tokenAgeSeconds curve =
     (case AGENT_TIME_WINDOWS strat of
        None \<Rightarrow> False
      | Some window \<Rightarrow>
          if \<not> enabled window then False
          else if strat = ''diamond_hands'' then
            (case curve of
               None \<Rightarrow> False
             | Some progress \<Rightarrow>
                 if nan_gt (minCurveProgress window) progress then False
                 else if nan_lt (maxCurveProgress window) progress then False
                 else True)
          else if nan_gt (minAge window) tokenAgeSeconds then False
          else if nan_lt (maxAge window) tokenAgeSeconds then False
          else True)"

subsection \<open>The scan loop of \<^verbatim>\<open>scanAndBuy\<close> (base-agent)\<close>

text \<open>\<^verbatim>\<open>a || b || "0"\<close> on strings.\<close>

fun firstPresent :: "numstr \<Rightarrow> numstr \<Rightarrow> numstr" where
  "firstPresent Absent Absent = Parsed 0"
| "firstPresent Absent b = b"
| "firstPresent a b = a"

text \<open>The market snapshot \<^verbatim>\<open>scanAndBuy\<close> builds from a token's inline
  \<^verbatim>\<open>market_info\<close>.\<close>

definition marketFromInfo :: "RecentToken \<Rightarrow> MarketInfo \<Rightarrow> TokenMarketData" where
  "marketFromInfo tok m =
     \<lparr>price = firstPresent (price_native m) (MarketInfo.price m),
      market_cap = orZero (reserve_native m),
      volume_24h = orZero (volume m),
      price_change_1h = Some (case percent_1h tok of None \<Rightarrow> 0 | Some c \<Rightarrow> c),
      price_change_24h = Some (case percent tok of None \<Rightarrow> 0 | Some c \<Rightarrow> c),
      holder_count = Some (case MarketInfo.holder_count m of None \<Rightarrow> 0 | Some h \<Rightarrow> h),
      is_graduated = Some (market_type m = ''DEX'')\<rparr>"

text \<open>\<^verbatim>\<open>tokenMarketPairs\<close>: the first 20 tokens that carry \<^verbatim>\<open>market_info\<close>, with their
  snapshot; and the lookup \<^verbatim>\<open>tokenMarketPairs.find(...)\<close> by lower-cased address.\<close>

definition tokenMarketPairsOf :: "RecentToken list \<Rightarrow> TokenMarketPair list" where
  "tokenMarketPairsOf recentTokens =
     map (\<lambda>tok. \<lparr>TokenMarketPair.token = tok,
                 TokenMarketPair.market = Some (marketFromInfo tok (the (market_info tok)))\<rparr>)
       (filter (\<lambda>tok. market_info tok \<noteq> None) (take 20 recentTokens))"

definition cachedMarket :: "TokenMarketPair list \<Rightarrow> string \<Rightarrow> TokenMarketData option" where
  "cachedMarket pairs tokenAddr =
     (case find (\<lambda>p. toLowerCase (token_id (token_info (TokenMarketPair.token p))) = tokenAddr) pairs of
        None \<Rightarrow> None
      | Some p \<Rightarrow> TokenMarketPair.market p)"

text \<open>What the loop takes from outside: the blacklist set built before the loop, the
  dead-token registry, the bonding-curve read (\<open>None\<close> when it throws), the chart and
  holder enrichment (\<open>None\<close> when the fetch fails or returns too little), and the clock
  readings \<^verbatim>\<open>Math.floor(Date.now() / 1000)\<close> made for a token by the quality check and
  by the age computation.\<close>

record ScanEnv =
  blacklist :: "string set"
  deadListed :: "string \<Rightarrow> bool"
  curveOf :: "string \<Rightarrow> real option"
  technicalOf :: "string \<Rightarrow> TechnicalIndicators option"
  whaleOf :: "string \<Rightarrow> WhaleAnalysis option"
  qualityNow :: "RecentToken \<Rightarrow> real"
  ageNow :: "RecentToken \<Rightarrow> real"

definition MAX_DETAILED :: nat where
  "MAX_DETAILED = 5"

definition MIN_HOLDERS :: real where
  "MIN_HOLDERS = 30"

text \<open>The enrichment step and the \<^verbatim>\<open>const ctx: TokenContext = {...}\<close> statement of
  the loop body: chart and holder data are fetched only while the loop's counter
  \<open>detailedCount\<close> is below \<open>MAX_DETAILED\<close>.\<close>

definition makeContext ::
  "ScanEnv \<Rightarrow> MarketRegime \<Rightarrow> nat \<Rightarrow> RecentToken \<Rightarrow> TokenMarketData \<Rightarrow> real \<Rightarrow> real option \<Rightarrow> TokenContext" where
  "makeContext env reg detailedCount tok mkt age curve =
     (let tokenAddr = toLowerCase (token_id (token_info tok))
      in \<lparr>token = tok, market = Some mkt, curveProgress = curve, ageSeconds = age,
          technical = (if detailedCount < MAX_DETAILED then technicalOf env tokenAddr else None),
          whaleData = (if detailedCount < MAX_DETAILED then whaleOf env tokenAddr else None),
          regime = Some reg\<rparr>)"

text \<open>The body of the \<^verbatim>\<open>for (const token of recentTokens)\<close> loop up to the call of the
  scorer: \<open>None\<close> is a \<^verbatim>\<open>continue\<close>, \<open>Some ctx\<close> the context handed to the scorer.\<close>

definition scanToken ::
  "ScanEnv \<Rightarrow> string \<Rightarrow> TokenMarketPair list \<Rightarrow> MarketRegime \<Rightarrow> nat \<Rightarrow> RecentToken \<Rightarrow> TokenContext option" where
  "scanToken env strat pairs reg detailedCount tok =
     (let tokenAddr = toLowerCase (token_id (token_info tok))
      in if tokenAddr \<in> blacklist env then None
      else
        case (case market_info tok of
                Some m \<Rightarrow> Some (marketFromInfo tok m)
              | None \<Rightarrow> cachedMarket pairs tokenAddr) of
          None \<Rightarrow> None
        | Some mkt \<Rightarrow>
            if deadListed env tokenAddr then None
            else if \<not> passed (checkTokenQuality (qualityNow env tok) tok) then None
            else if TokenMarketData.price mkt = Absent
                    \<or> nan_le (parseFloat (TokenMarketData.price mkt)) 0 then None
            else if volumeToMon (orZero (volume_24h mkt))
                    < (if strat = ''sniper'' \<or> strat = ''alpha_hunter'' then 100 else 1000) then None
            else if nan_lt (TokenMarketData.holder_count mkt) MIN_HOLDERS then None
            else if strat \<noteq> ''contrarian''
                    \<and> (case price_change_1h mkt of None \<Rightarrow> 0 | Some c \<Rightarrow> c) < - 20 then None
            else
              let age = ageNow env tok - created_at (token_info tok);
                  curve = curveOf env tokenAddr
              in if \<not> isTokenInWindow strat age curve then None
                 else Some (makeContext env reg detailedCount tok mkt age curve))"

text \<open>The loop: the contexts on which the scorer is invoked, in order. The counter
  grows by one for each token that reaches the enrichment step below the cap.\<close>

fun scanLoop ::
  "ScanEnv \<Rightarrow> string \<Rightarrow> TokenMarketPair list \<Rightarrow> MarketRegime \<Rightarrow> nat \<Rightarrow> RecentToken list \<Rightarrow> TokenContext list" where
  "scanLoop env strat pairs reg detailedCount [] = []"
| "scanLoop env strat pairs reg detailedCount (tok # rest) =
     (case scanToken env strat pairs reg detailedCount tok of
        None \<Rightarrow> scanLoop env strat pairs reg detailedCount rest
      | Some ctx \<Rightarrow>
          ctx # scanLoop env strat pairs reg
                  (if detailedCount < MAX_DETAILED then detailedCount + 1 else detailedCount) rest)"

text \<open>\<^verbatim>\<open>regimeThresholdAdjustment(regime, baseThreshold)\<close> and the configured
  \<^verbatim>\<open>TRADE_CONFIG.SIGNAL_THRESHOLD\<close>.\<close>

definition regimeThresholdAdjustment :: "MarketRegime \<Rightarrow> int \<Rightarrow> int" where
  "regimeThresholdAdjustment reg baseThreshold =
     (case reg of
        Bull \<Rightarrow> max 85 (baseThreshold - 5)
      | Bear \<Rightarrow> min 95 (baseThreshold + 15)
      | Sideways \<Rightarrow> baseThreshold)"

definition SIGNAL_THRESHOLD :: int where
  "SIGNAL_THRESHOLD = 75"

text \<open>The part of \<^verbatim>\<open>scanAndBuy\<close> from the regime detection to the end of the loop:
  the signals collected. The scorer runs on every context of the loop and a signal is
  kept when its score reaches the threshold; an unknown strategy has no scorer and
  scans nothing. \<open>nowSeconds\<close> is the clock reading of the regime detection.\<close>

definition scanSignals :: "ScanEnv \<Rightarrow> string \<Rightarrow> real \<Rightarrow> RecentToken list \<Rightarrow> MarketSignal list" where
  "scanSignals env strat nowSeconds recentTokens =
     (let tokenMarketPairs = tokenMarketPairsOf recentTokens;
          reg = RegimeAnalysis.regime (detectMarketRegime nowSeconds tokenMarketPairs);
          dynamicThreshold = regimeThresholdAdjustment reg SIGNAL_THRESHOLD
      in case STRATEGY_SCORERS strat of
           None \<Rightarrow> []
         | Some scorer \<Rightarrow>
             filter (\<lambda>signal. MarketSignal.score signal \<ge> dynamicThreshold)
               (map scorer (scanLoop env strat tokenMarketPairs reg 0 recentTokens)))"

text \<open>Example data: the token of the end-to-end scenario, with a reserve of 10 MON,
  5 holders, created 30 minutes (1800 s) before the clock reading 10000.\<close>

definition thinToken :: RecentToken where
  "thinToken =
     \<lparr>token_info = \<lparr>token_id = ''0xTh1n'', name = ''Thin'', symbol = ''THIN'', created_at = 8200\<rparr>,
      market_info = Some \<lparr>market_type = ''CURVE'', reserve_native = Parsed (10 * 10 ^ 18),
                          price = Parsed 1, price_native = Parsed 1,
                          volume = Parsed (5000 * 10 ^ 18), holder_count = Some 5\<rparr>,
      percent = Some 12, percent_1h = Some 12\<rparr>"

text \<open>Example data: an environment with nothing blacklisted and no enrichment, read at
  clock second 10000.\<close>

definition openEnv :: ScanEnv where
  "openEnv =
     \<lparr>blacklist = {}, deadListed = (\<lambda>a. False), curveOf = (\<lambda>a. None),
      technicalOf = (\<lambda>a. None), whaleOf = (\<lambda>a. None),
      qualityNow = (\<lambda>t. 10000), ageNow = (\<lambda>t. 10000)\<rparr>"

section \<open>Verified properties\<close>

subsection \<open>Position size\<close>

text \<open>
  Claim C10, as amended. For every learning profile and every confidence value, also one
  outside 0-100, for which the product \<^verbatim>\<open>baseSize * (0.5 + confidence / 100)\<close> is not
  \<^verbatim>\<open>NaN\<close>, the recommended position size is a number between 2 and 15 MON inclusive.
  When the product is \<^verbatim>\<open>NaN\<close>, as it is for a \<^verbatim>\<open>NaN\<close> confidence or a \<^verbatim>\<open>NaN\<close>
  position size, the function returns \<^verbatim>\<open>NaN\<close>.
\<close>

theorem getRecommendedPositionSize_range:
  "(js_mul rnd (positionSize profile) (js_add rnd (Fin 0.5) (js_div_literal rnd conf 100)) \<noteq> NaN
      \<longrightarrow> (\<exists>size. getRecommendedPositionSize rnd profile conf = Fin size \<and> 2 \<le> size \<and> size \<le> 15))
   \<and> (js_mul rnd (positionSize profile) (js_add rnd (Fin 0.5) (js_div_literal rnd conf 100)) = NaN
      \<longrightarrow> getRecommendedPositionSize rnd profile conf = NaN)
   \<and> (conf = NaN \<or> positionSize profile = NaN
      \<longrightarrow> getRecommendedPositionSize rnd profile conf = NaN)"
proof -
  let ?x = "js_mul rnd (positionSize profile) (js_add rnd (Fin 0.5) (js_div_literal rnd conf 100))"
  have clamp: "x \<noteq> NaN \<Longrightarrow> \<exists>size. js_min (Fin 15) (js_max (Fin 2) x) = Fin size \<and> 2 \<le> size \<and> size \<le> 15" for x
    by (cases x) simp_all
  have r: "getRecommendedPositionSize rnd profile conf = js_min (Fin 15) (js_max (Fin 2) ?x)"
    by (simp add: getRecommendedPositionSize_def Let_def)
  have a: "?x \<noteq> NaN \<longrightarrow>
      (\<exists>size. getRecommendedPositionSize rnd profile conf = Fin size \<and> 2 \<le> size \<and> size \<le> 15)"
    using clamp [of ?x] r by simp
  have b: "?x = NaN \<longrightarrow> getRecommendedPositionSize rnd profile conf = NaN"
    using r by simp
  have nan_conf: "js_mul rnd y (js_add rnd (Fin 0.5) (js_div_literal rnd NaN 100)) = NaN" for y
    by (cases y) simp_all
  have c: "conf = NaN \<or> positionSize profile = NaN
      \<longrightarrow> getRecommendedPositionSize rnd profile conf = NaN"
    using r nan_conf by auto
  show ?thesis using a b c by blast
qed

theorem getRecommendedPositionSize_range_witness:
  "js_mul Fin (positionSize freshProfile) (js_add Fin (Fin 0.5) (js_div_literal Fin (Fin 50) 100)) \<noteq> NaN
   \<and> getRecommendedPositionSize Fin freshProfile (Fin 50) = Fin 5
   \<and> (2::real) \<le> 5 \<and> (5::real) \<le> 15
   \<and> js_mul Fin (positionSize freshProfile) (js_add Fin (Fin 0.5) (js_div_literal Fin NaN 100)) = NaN
   \<and> getRecommendedPositionSize Fin freshProfile NaN = NaN"
proof -
  have x: "js_mul Fin (positionSize freshProfile) (js_add Fin (Fin 0.5) (js_div_literal Fin (Fin 50) 100)) = Fin 5"
    by (simp add: freshProfile_def)
  have n: "js_mul Fin (positionSize freshProfile) (js_add Fin (Fin 0.5) (js_div_literal Fin NaN 100)) = NaN"
    by (simp add: freshProfile_def)
  have v: "getRecommendedPositionSize Fin freshProfile (Fin 50) = Fin 5"
    using getRecommendedPositionSize_range [of Fin freshProfile "Fin 50"] x
    by (auto simp: getRecommendedPositionSize_def Let_def)
  have w: "getRecommendedPositionSize Fin freshProfile NaN = NaN"
    using getRecommendedPositionSize_range [of Fin freshProfile NaN] n by simp
  show ?thesis using x n v w by simp
qed

text \<open>
  The claim as stated fails at a \<^verbatim>\<open>NaN\<close> confidence: for the fresh profile the
  function returns \<^verbatim>\<open>NaN\<close>, which is not a number between 2 and 15.
\<close>

theorem position_size_nan_counterexample:
  "getRecommendedPositionSize Fin freshProfile NaN = NaN
   \<and> \<not> (\<exists>size. getRecommendedPositionSize Fin freshProfile NaN = Fin size \<and> 2 \<le> size \<and> size \<le> 15)"
  by (simp add: getRecommendedPositionSize_def Let_def freshProfile_def)

subsection \<open>Token claims\<close>

lemma claimToken_holder:
  "claimToken now sw tok A nm why d cs = (True, csA) \<Longrightarrow>
   \<exists>c. csA (toLowerCase tok) = Some c \<and> TokenClaim.agentId c = A"
  by (auto simp: claimToken_def takeClaim_def Let_def split: option.splits if_splits)

lemma claimToken_blocked:
  "cs (toLowerCase tok) = Some c \<Longrightarrow> TokenClaim.agentId c \<noteq> B \<Longrightarrow> sw \<le> expiresAt c \<Longrightarrow> now \<le> sw \<Longrightarrow>
   claimToken now sw tok B nm why d cs = (False, cleanupExpiredClaims sw cs)"
  by (simp add: claimToken_def cleanupExpiredClaims_def Let_def)

lemma claimToken_free:
  "cs (toLowerCase tok) = None \<Longrightarrow> fst (claimToken now sw tok B nm why d cs)"
  by (simp add: claimToken_def cleanupExpiredClaims_def takeClaim_def Let_def)

lemma claimToken_expired:
  "cs (toLowerCase tok) = Some c \<Longrightarrow> expiresAt c < now \<Longrightarrow> fst (claimToken now sw tok B nm why d cs)"
  by (simp add: claimToken_def cleanupExpiredClaims_def takeClaim_def Let_def)

lemma releaseToken_holder:
  "cs (toLowerCase tok) = Some c \<Longrightarrow> TokenClaim.agentId c = A \<Longrightarrow> releaseToken tok A cs (toLowerCase tok) = None"
  by (simp add: releaseToken_def Let_def)

lemma claimToken_reclaim:
  "cs (toLowerCase tok) = Some c \<Longrightarrow> TokenClaim.agentId c = A \<Longrightarrow> sw \<le> expiresAt c \<Longrightarrow> now \<le> sw \<Longrightarrow>
   claimToken now sw tok A nm why d cs =
     (True, (cleanupExpiredClaims sw cs)(toLowerCase tok \<mapsto> c\<lparr>expiresAt := now + d\<rparr>))"
  by (simp add: claimToken_def cleanupExpiredClaims_def Let_def)

lemma dom_reclaim:
  "cs (toLowerCase tok) = Some c \<Longrightarrow> sw \<le> expiresAt c \<Longrightarrow>
   dom ((cleanupExpiredClaims sw cs)(toLowerCase tok \<mapsto> c')) = dom (cleanupExpiredClaims sw cs)"
  by (auto simp: cleanupExpiredClaims_def split: option.splits if_splits)

text \<open>
  What holds of the coordinator. After a successful claim of a token by agent \<open>A\<close>:
  a claim by a different agent \<open>B\<close> returns false while the record is unexpired;
  after \<open>A\<close> releases the token, a claim by \<open>B\<close> returns true;
  any agent's claim returns true once the record has expired (\<open>expiresAt < now\<close>);
  a re-claim by \<open>A\<close> before expiry returns true and the map holds the same keys as
  after the sweep: no second record.
\<close>

lemma coordinator_claim_release_expiry:
  assumes held: "claimToken nowA sweepA tok A nameA whyA dA cs = (True, csA)"
  shows "(B \<noteq> A \<and> nowB \<le> sweepB \<and> (\<exists>c. csA (toLowerCase tok) = Some c \<and> sweepB \<le> expiresAt c)
            \<longrightarrow> fst (claimToken nowB sweepB tok B nameB whyB dB csA) = False)
       \<and> fst (claimToken nowB sweepB tok B nameB whyB dB (releaseToken tok A csA)) = True
       \<and> ((\<exists>c. csA (toLowerCase tok) = Some c \<and> expiresAt c < nowB)
            \<longrightarrow> fst (claimToken nowB sweepB tok B nameB whyB dB csA) = True)
       \<and> (nowB \<le> sweepB \<and> (\<exists>c. csA (toLowerCase tok) = Some c \<and> sweepB \<le> expiresAt c)
            \<longrightarrow> fst (claimToken nowB sweepB tok A nameA whyB dB csA) = True
                \<and> dom (snd (claimToken nowB sweepB tok A nameA whyB dB csA))
                    = dom (cleanupExpiredClaims sweepB csA))"
proof -
  from claimToken_holder[OF held] obtain c where
    c: "csA (toLowerCase tok) = Some c" and a: "TokenClaim.agentId c = A" by blast
  have p1: "B \<noteq> A \<and> nowB \<le> sweepB \<and> (\<exists>c. csA (toLowerCase tok) = Some c \<and> sweepB \<le> expiresAt c)
            \<longrightarrow> fst (claimToken nowB sweepB tok B nameB whyB dB csA) = False"
    using c a by (auto simp: claimToken_blocked)
  have p2: "fst (claimToken nowB sweepB tok B nameB whyB dB (releaseToken tok A csA)) = True"
    using releaseToken_holder[of csA tok c A] c a by (simp add: claimToken_free)
  have p3: "(\<exists>c. csA (toLowerCase tok) = Some c \<and> expiresAt c < nowB)
            \<longrightarrow> fst (claimToken nowB sweepB tok B nameB whyB dB csA) = True"
    by (auto simp: claimToken_expired)
  have p4: "nowB \<le> sweepB \<and> (\<exists>c. csA (toLowerCase tok) = Some c \<and> sweepB \<le> expiresAt c)
            \<longrightarrow> fst (claimToken nowB sweepB tok A nameA whyB dB csA) = True
                \<and> dom (snd (claimToken nowB sweepB tok A nameA whyB dB csA))
                    = dom (cleanupExpiredClaims sweepB csA)"
  proof (intro impI, elim conjE exE)
    fix c' assume le: "nowB \<le> sweepB" and c': "csA (toLowerCase tok) = Some c'" and un: "sweepB \<le> expiresAt c'"
    from c c' a have a': "TokenClaim.agentId c' = A" by simp
    let ?csB = "(cleanupExpiredClaims sweepB csA)(toLowerCase tok \<mapsto> c'\<lparr>expiresAt := nowB + dB\<rparr>)"
    have r: "claimToken nowB sweepB tok A nameA whyB dB csA = (True, ?csB)"
      using c' a' un le by (rule claimToken_reclaim)
    have "dom ?csB = dom (cleanupExpiredClaims sweepB csA)"
      using c' un by (rule dom_reclaim)
    with r show "fst (claimToken nowB sweepB tok A nameA whyB dB csA) = True
                \<and> dom (snd (claimToken nowB sweepB tok A nameA whyB dB csA))
                    = dom (cleanupExpiredClaims sweepB csA)"
      by simp
  qed
  show ?thesis using p1 p2 p3 p4 by blast
qed

lemma coordinator_claim_release_expiry_example:
  "claimToken 0 0 ''0xAbC'' ''agentA'' ''Alpha'' ''signal'' 300000 Map.empty =
     (True, snd (claimToken 0 0 ''0xAbC'' ''agentA'' ''Alpha'' ''signal'' 300000 Map.empty))
   \<and> fst (claimToken 1000 1000 ''0xAbC'' ''agentB'' ''Beta'' ''signal'' 300000
          (snd (claimToken 0 0 ''0xAbC'' ''agentA'' ''Alpha'' ''signal'' 300000 Map.empty))) = False
   \<and> fst (claimToken 1000 1000 ''0xAbC'' ''agentB'' ''Beta'' ''signal'' 300000
          (releaseToken ''0xAbC'' ''agentA''
            (snd (claimToken 0 0 ''0xAbC'' ''agentA'' ''Alpha'' ''signal'' 300000 Map.empty)))) = True
   \<and> fst (claimToken 400000 400000 ''0xAbC'' ''agentB'' ''Beta'' ''signal'' 300000
          (snd (claimToken 0 0 ''0xAbC'' ''agentA'' ''Alpha'' ''signal'' 300000 Map.empty))) = True
   \<and> fst (claimToken 1000 1000 ''0xAbC'' ''agentA'' ''Alpha'' ''signal'' 300000
          (snd (claimToken 0 0 ''0xAbC'' ''agentA'' ''Alpha'' ''signal'' 300000 Map.empty))) = True"
proof -
  let ?csA = "snd (claimToken 0 0 ''0xAbC'' ''agentA'' ''Alpha'' ''signal'' 300000 Map.empty)"
  have held: "claimToken 0 0 ''0xAbC'' ''agentA'' ''Alpha'' ''signal'' 300000 Map.empty = (True, ?csA)"
    by (simp add: claimToken_def takeClaim_def Let_def cleanupExpiredClaims_def)
  have key: "toLowerCase ''0xAbC'' = ''0xabc''"
    by (simp add: toLowerCase_def lowerChar_def)
  have rec: "?csA ''0xabc'' = Some \<lparr>TokenClaim.tokenAddress = ''0xabc'', TokenClaim.agentId = ''agentA'',
       agentName = ''Alpha'', claimedAt = 0, expiresAt = 300000, TokenClaim.reason = ''signal''\<rparr>"
    by (simp add: claimToken_def takeClaim_def Let_def cleanupExpiredClaims_def key
        MAX_LOCK_DURATION_def)
  note early = coordinator_claim_release_expiry [OF held, where B = "''agentB''" and nowB = 1000
      and sweepB = 1000 and nameB = "''Beta''" and whyB = "''signal''" and dB = 300000]
  note late = coordinator_claim_release_expiry [OF held, where B = "''agentB''" and nowB = 400000
      and sweepB = 400000 and nameB = "''Beta''" and whyB = "''signal''" and dB = 300000]
  have b1: "fst (claimToken 1000 1000 ''0xAbC'' ''agentB'' ''Beta'' ''signal'' 300000 ?csA) = False"
    using early rec by (simp add: key)
  have b2: "fst (claimToken 1000 1000 ''0xAbC'' ''agentB'' ''Beta'' ''signal'' 300000
          (releaseToken ''0xAbC'' ''agentA'' ?csA)) = True"
    using early by blast
  have b3: "fst (claimToken 400000 400000 ''0xAbC'' ''agentB'' ''Beta'' ''signal'' 300000 ?csA) = True"
    using late rec by (simp add: key)
  have b4: "fst (claimToken 1000 1000 ''0xAbC'' ''agentA'' ''Alpha'' ''signal'' 300000 ?csA) = True"
    using early rec by (simp add: key)
  show ?thesis using held b1 b2 b3 b4 by blast
qed

text \<open>
  Claim C2, evaluated where it fails. The claim says that a re-claim by the original
  holder before expiry extends \<open>expiresAt\<close>, and the re-claim branch is commented
  "Extend the lock". Agent A claims a token for 600 000 ms at time 0 and re-claims it for
  1000 ms at time 1000: the re-claim returns true and \<open>expiresAt\<close> moves from 600 000
  back to 2000, because the branch stores \<open>now + durationMs\<close> whatever the old expiry.
\<close>

theorem reclaim_shortens_expiry:
  "fst (claimToken 1000 1000 ''0xabc'' ''agentA'' ''Alpha'' ''signal'' 1000
          (snd (claimToken 0 0 ''0xabc'' ''agentA'' ''Alpha'' ''signal'' 600000 Map.empty)))
   \<and> map_option expiresAt
        (snd (claimToken 0 0 ''0xabc'' ''agentA'' ''Alpha'' ''signal'' 600000 Map.empty) ''0xabc'')
       = Some 600000
   \<and> map_option expiresAt
        (snd (claimToken 1000 1000 ''0xabc'' ''agentA'' ''Alpha'' ''signal'' 1000
          (snd (claimToken 0 0 ''0xabc'' ''agentA'' ''Alpha'' ''signal'' 600000 Map.empty))) ''0xabc'')
       = Some 2000
   \<and> \<not> ((600000::real) \<le> 2000)"
  by (simp add: claimToken_def takeClaim_def Let_def cleanupExpiredClaims_def toLowerCase_def
      lowerChar_def MAX_LOCK_DURATION_def)

text \<open>
  Claim C8, evaluated where it fails. Agent A claims a token at time 0 and claims it again
  at time 1000 asking for one hour: the re-claim branch stores \<open>now + durationMs\<close>
  unclamped, so the record expires 3 600 000 ms after the operation, beyond the cap of
  600 000 ms that the fresh-claim branch enforces.
\<close>

theorem reclaim_exceeds_max_lock_duration:
  "map_option expiresAt
     (snd (claimToken 1000 1000 ''0xabc'' ''agentA'' ''Alpha'' ''signal'' 3600000
        (snd (claimToken 0 0 ''0xabc'' ''agentA'' ''Alpha'' ''signal'' 300000 Map.empty))) ''0xabc'')
     = Some 3601000
   \<and> (3601000::real) > 1000 + MAX_LOCK_DURATION"
  by (simp add: claimToken_def takeClaim_def Let_def cleanupExpiredClaims_def toLowerCase_def
      lowerChar_def MAX_LOCK_DURATION_def)

lemma takeClaim_within_cap:
  "takeClaim now k agent nm why durationMs cs = (r, cs') \<Longrightarrow>
   \<exists>c. cs' k = Some c \<and> expiresAt c \<le> now + MAX_LOCK_DURATION"
  by (auto simp: takeClaim_def Let_def)

subsection \<open>Exits and partial sells\<close>

lemma bigint_div_nonneg: "0 \<le> a \<Longrightarrow> 0 < b \<Longrightarrow> bigint_div a b = a div b"
  by (cases "a = 0") (simp_all add: bigint_div_def)

text \<open>
  Claim C4, as amended. For a holding with a positive cost basis the trailing stop never
  fires while the recorded peak PnL percentage is 5 or less, and when no profit target
  and no hard stop-loss triggered it fires (a full sell with the trailing-stop reason)
  exactly when the peak exceeds 5 and the code's double subtraction
  \<^verbatim>\<open>peakPnlPct - pnlPercent\<close> exceeds the strategy's threshold: 8 for sniper and
  swing_trader, 15 for diamond_hands, 12 for degen_ape, 10 otherwise. A holding whose
  cost basis is 0 or less is never sold by the check, whatever its peak.
\<close>

theorem trailing_stop_fires_iff:
  "(peakPnlPct trailing \<le> 5 \<longrightarrow>
      \<not> isTrailingStop (SellDecision.reason
            (evaluateSellCondition rnd strat tokenSym cost currentValue unrealizedPnl trailing held)))
   \<and> (isTrailingStop (SellDecision.reason
            (evaluateSellCondition rnd strat tokenSym cost currentValue unrealizedPnl trailing held))
      \<longrightarrow> sell (evaluateSellCondition rnd strat tokenSym cost currentValue unrealizedPnl trailing held)
          \<and> exitType (evaluateSellCondition rnd strat tokenSym cost currentValue unrealizedPnl trailing held) = Full)
   \<and> (cost \<le> 0 \<longrightarrow>
        evaluateSellCondition rnd strat tokenSym cost currentValue unrealizedPnl trailing held
          = \<lparr>sell = False, reason = NoCostBasis, exitType = Full\<rparr>)
   \<and> (0 < cost
        \<and> \<not> sell (checkStrategyProfitTargets strat (pnlPercentDouble rnd unrealizedPnl cost))
        \<and> (if strat = ''sniper'' \<or> strat = ''alpha_hunter'' then - 5 else - 7)
            < pnlPercentDouble rnd unrealizedPnl cost
      \<longrightarrow>
        (evaluateSellCondition rnd strat tokenSym cost currentValue unrealizedPnl trailing held
           = \<lparr>sell = True,
              reason = TrailingStop (rnd (peakPnlPct trailing - pnlPercentDouble rnd unrealizedPnl cost))
                         (peakPnlPct trailing),
              exitType = Full\<rparr>
          \<longleftrightarrow> peakPnlPct trailing > 5
               \<and> rnd (peakPnlPct trailing - pnlPercentDouble rnd unrealizedPnl cost)
                   > getTrailingStopThreshold strat)
        \<and> (isTrailingStop (SellDecision.reason
              (evaluateSellCondition rnd strat tokenSym cost currentValue unrealizedPnl trailing held))
          \<longleftrightarrow> peakPnlPct trailing > 5
               \<and> rnd (peakPnlPct trailing - pnlPercentDouble rnd unrealizedPnl cost)
                   > getTrailingStopThreshold strat))
   \<and> getTrailingStopThreshold strat =
        (if strat = ''sniper'' \<or> strat = ''swing_trader'' then 8
         else if strat = ''diamond_hands'' then 15
         else if strat = ''degen_ape'' then 12
         else 10)"
proof -
  let ?d = "evaluateSellCondition rnd strat tokenSym cost currentValue unrealizedPnl trailing held"
  let ?pnl = "pnlPercentDouble rnd unrealizedPnl cost"
  have profit: "sell (checkStrategyProfitTargets s p) \<Longrightarrow>
       \<not> isTrailingStop (SellDecision.reason (checkStrategyProfitTargets s p))" for s p
    by (simp add: checkStrategyProfitTargets_def Let_def split: if_splits)
  have a: "peakPnlPct trailing \<le> 5 \<longrightarrow> \<not> isTrailingStop (SellDecision.reason ?d)"
    using profit by (simp add: evaluateSellCondition_def Let_def)
  have b: "isTrailingStop (SellDecision.reason ?d) \<longrightarrow> sell ?d \<and> exitType ?d = Full"
    using profit by (simp add: evaluateSellCondition_def Let_def)
  have z: "cost \<le> 0 \<longrightarrow> ?d = \<lparr>sell = False, reason = NoCostBasis, exitType = Full\<rparr>"
    by (simp add: evaluateSellCondition_def)
  have c: "0 < cost
        \<and> \<not> sell (checkStrategyProfitTargets strat ?pnl)
        \<and> (if strat = ''sniper'' \<or> strat = ''alpha_hunter'' then - 5 else - 7) < ?pnl
      \<longrightarrow>
        (?d = \<lparr>sell = True,
              reason = TrailingStop (rnd (peakPnlPct trailing - ?pnl)) (peakPnlPct trailing),
              exitType = Full\<rparr>
          \<longleftrightarrow> peakPnlPct trailing > 5
               \<and> rnd (peakPnlPct trailing - ?pnl) > getTrailingStopThreshold strat)
        \<and> (isTrailingStop (SellDecision.reason ?d)
          \<longleftrightarrow> peakPnlPct trailing > 5
               \<and> rnd (peakPnlPct trailing - ?pnl) > getTrailingStopThreshold strat)"
    by (simp add: evaluateSellCondition_def Let_def)
  have t: "getTrailingStopThreshold strat =
        (if strat = ''sniper'' \<or> strat = ''swing_trader'' then 8
         else if strat = ''diamond_hands'' then 15
         else if strat = ''degen_ape'' then 12
         else 10)"
    by (simp add: getTrailingStopThreshold_def)
  show ?thesis using a b z c t by blast
qed

theorem trailing_stop_fires_iff_witness:
  "(0::int) < 1000
   \<and> \<not> sell (checkStrategyProfitTargets ''sniper'' (pnlPercentDouble (\<lambda>x. x) 20 1000))
   \<and> - 5 < pnlPercentDouble (\<lambda>x. x) 20 1000
   \<and> evaluateSellCondition (\<lambda>x. x) ''sniper'' ''TKN'' 1000 1020 20 \<lparr>peakPnlPct = 12, lastUpdated = 0\<rparr> 3
        = \<lparr>sell = True, reason = TrailingStop 10 12, exitType = Full\<rparr>
   \<and> \<not> isTrailingStop (SellDecision.reason (evaluateSellCondition (\<lambda>x. x) ''sniper'' ''TKN'' 1000 1020 20
          \<lparr>peakPnlPct = 4, lastUpdated = 0\<rparr> 3))
   \<and> evaluateSellCondition (\<lambda>x. x) ''sniper'' ''TKN'' 0 50 50 \<lparr>peakPnlPct = 15, lastUpdated = 0\<rparr> 3
        = \<lparr>sell = False, reason = NoCostBasis, exitType = Full\<rparr>"
proof -
  have pnl: "pnlPercentDouble (\<lambda>x. x) 20 1000 = 2"
    by (simp add: pnlPercentDouble_def bigint_div_def)
  have hold: "\<not> sell (checkStrategyProfitTargets ''sniper'' 2)"
    by (simp add: checkStrategyProfitTargets_def Let_def)
  have armed: "evaluateSellCondition (\<lambda>x. x) ''sniper'' ''TKN'' 1000 1020 20 \<lparr>peakPnlPct = 12, lastUpdated = 0\<rparr> 3
        = \<lparr>sell = True, reason = TrailingStop 10 12, exitType = Full\<rparr>"
    using trailing_stop_fires_iff [of "\<lparr>peakPnlPct = 12, lastUpdated = 0\<rparr>" "\<lambda>x. x" "''sniper''"
        "''TKN''" 1000 1020 20 3] hold
    by (simp add: pnl getTrailingStopThreshold_def)
  have unarmed: "\<not> isTrailingStop (SellDecision.reason (evaluateSellCondition (\<lambda>x. x) ''sniper'' ''TKN'' 1000 1020 20
          \<lparr>peakPnlPct = 4, lastUpdated = 0\<rparr> 3))"
    using trailing_stop_fires_iff [of "\<lparr>peakPnlPct = 4, lastUpdated = 0\<rparr>" "\<lambda>x. x" "''sniper''"
        "''TKN''" 1000 1020 20 3]
    by simp
  have nocost: "evaluateSellCondition (\<lambda>x. x) ''sniper'' ''TKN'' 0 50 50 \<lparr>peakPnlPct = 15, lastUpdated = 0\<rparr> 3
        = \<lparr>sell = False, reason = NoCostBasis, exitType = Full\<rparr>"
    using trailing_stop_fires_iff [of "\<lparr>peakPnlPct = 15, lastUpdated = 0\<rparr>" "\<lambda>x. x" "''sniper''"
        "''TKN''" 0 50 50 3]
    by simp
  show ?thesis using pnl hold armed unarmed nocost by simp
qed

text \<open>
  The claim as stated fails for a Holding whose cost basis is 0, as a partial sell can
  leave it. Its current PnL percentage is 0 and its recorded peak 15, so the stop is armed
  and the drop of 15 exceeds the sniper's threshold of 8; no profit target triggers at
  0% and 0 is above the stop-loss of -5; yet the check does not sell.
\<close>

theorem zero_cost_basis_never_fires_counterexample:
  "holdingPnlPercent (\<lambda>x. x) 50 0 = 0
   \<and> (15::real) > 5
   \<and> (15::real) - 0 > getTrailingStopThreshold ''sniper''
   \<and> \<not> sell (checkStrategyProfitTargets ''sniper'' 0)
   \<and> \<not> (0::real) \<le> - 5
   \<and> \<not> sell (evaluateSellCondition (\<lambda>x. x) ''sniper'' ''TKN'' 0 50 50
            \<lparr>peakPnlPct = 15, lastUpdated = 0\<rparr> 3)"
  by (simp add: holdingPnlPercent_def getTrailingStopThreshold_def checkStrategyProfitTargets_def
      evaluateSellCondition_def Let_def)

lemma bigint_div_bounds:
  assumes "0 \<le> c" "0 \<le> s" "0 < t"
  shows "t * bigint_div (c * s) t \<le> c * s" and "c * s < t * bigint_div (c * s) t + t"
proof -
  have nn: "0 \<le> c * s" using assms by simp
  have eq: "bigint_div (c * s) t = (c * s) div t"
    using nn assms(3) by (rule bigint_div_nonneg)
  have m: "(c * s) mod t < t" "0 \<le> (c * s) mod t" using assms(3) by simp_all
  have d: "c * s = t * ((c * s) div t) + (c * s) mod t" by simp
  show "t * bigint_div (c * s) t \<le> c * s" unfolding eq using d m by linarith
  show "c * s < t * bigint_div (c * s) t + t" unfolding eq using d m by linarith
qed

lemma bigint_div_le_self:
  assumes "0 \<le> c" "0 \<le> s" "s \<le> t" "0 < t"
  shows "bigint_div (c * s) t \<le> c"
proof -
  have "c * s \<le> c * t" using assms by (simp add: mult_left_mono)
  moreover have "bigint_div (c * s) t = (c * s) div t"
    using assms by (simp add: bigint_div_nonneg)
  moreover have "(c * t) div t = c" using assms by simp
  ultimately show ?thesis using assms(4) by (metis zdiv_mono1)
qed

text \<open>
  Claim C3, as amended. For a sell of \<open>sold\<close> out of \<open>before\<close> tokens (the amount before the sale) whose sale and
  following vault read succeed: the cost basis is reduced by exactly the truncated
  quotient \<open>(costBasis * sold) / before\<close>; the remaining cost basis per remaining token
  equals the cost per token before the sale up to that truncation, and exactly when
  \<open>before\<close> divides \<open>costBasis * sold\<close>; selling nothing leaves the Holding as it is;
  selling the whole balance is a full exit, which deletes the Holding.
\<close>

theorem partial_sell_cost_basis:
  assumes "0 \<le> costBasis holding" and "0 \<le> sold" and "sold \<le> before" and "0 < before"
  shows "executeSell holding sold monValue (costBasis holding) False (Some out) (Some (before - sold)) =
           (Some (holding\<lparr>costBasis := costBasis holding - bigint_div (costBasis holding * sold) before\<rparr>),
            Some (out - bigint_div (costBasis holding * sold) before))
       \<and> costBasis holding * (before - sold)
            \<le> (costBasis holding - bigint_div (costBasis holding * sold) before) * before
       \<and> (costBasis holding - bigint_div (costBasis holding * sold) before) * before
            < costBasis holding * (before - sold) + before
       \<and> (before dvd costBasis holding * sold \<longrightarrow>
            (costBasis holding - bigint_div (costBasis holding * sold) before) * before
              = costBasis holding * (before - sold))
       \<and> executeSell holding 0 monValue (costBasis holding) False (Some out) (Some before) = (Some holding, Some out)
       \<and> fst (executeSell holding before monValue (costBasis holding) (before = before) (Some out) (Some 0)) = None
       \<and> fst (sellTriggered holding before monValue pnl Full (Some out) (Some 0)) = None"
proof -
  let ?c = "costBasis holding"
  let ?q = "bigint_div (?c * sold) before"
  have qle: "?q \<le> ?c" using assms by (rule bigint_div_le_self)
  have lo: "before * ?q \<le> ?c * sold" and hi: "?c * sold < before * ?q + before"
    using assms(1,2,4) by (rule bigint_div_bounds)+
  have p1: "executeSell holding sold monValue ?c False (Some out) (Some (before - sold)) =
           (Some (holding\<lparr>costBasis := ?c - ?q\<rparr>), Some (out - ?q))"
    using assms(4) qle by (simp add: executeSell_def Let_def)
  have p2: "?c * (before - sold) \<le> (?c - ?q) * before"
    using lo by (simp add: algebra_simps)
  have p3: "(?c - ?q) * before < ?c * (before - sold) + before"
    using hi by (simp add: algebra_simps)
  have p4: "before dvd ?c * sold \<longrightarrow> (?c - ?q) * before = ?c * (before - sold)"
  proof
    assume dv: "before dvd ?c * sold"
    have "?q = (?c * sold) div before"
      using assms by (simp add: bigint_div_nonneg)
    then have "before * ?q = ?c * sold" using dv by simp
    then show "(?c - ?q) * before = ?c * (before - sold)" by (simp add: algebra_simps)
  qed
  have p5: "executeSell holding 0 monValue ?c False (Some out) (Some before) = (Some holding, Some out)"
    using assms(1,4) by (simp add: executeSell_def Let_def bigint_div_def)
  have p6: "fst (executeSell holding before monValue ?c (before = before) (Some out) (Some 0)) = None"
    by (simp add: executeSell_def Let_def)
  have p7: "fst (sellTriggered holding before monValue pnl Full (Some out) (Some 0)) = None"
    by (simp add: sellTriggered_def calculateSellAmount_def executeSell_def Let_def)
  show ?thesis using p1 p2 p3 p4 p5 p6 p7 by blast
qed

theorem partial_sell_cost_basis_witness:
  "(0::int) \<le> 3 \<and> (0::int) \<le> 2 \<and> (2::int) \<le> 4 \<and> (0::int) < 4
   \<and> executeSell \<lparr>amount = 4, costBasis = 3\<rparr> 2 4 3 False (Some 2) (Some 2) =
        (Some \<lparr>amount = 4, costBasis = 2\<rparr>, Some 1)
   \<and> executeSell \<lparr>amount = 4, costBasis = 3\<rparr> 0 4 3 False (Some 0) (Some 4) =
        (Some \<lparr>amount = 4, costBasis = 3\<rparr>, Some 0)
   \<and> fst (sellTriggered \<lparr>amount = 4, costBasis = 3\<rparr> 4 4 33 Full (Some 4) (Some 0)) = None"
  using partial_sell_cost_basis [of "\<lparr>amount = 4, costBasis = 3\<rparr>" 2 4 4 2 33]
    partial_sell_cost_basis [of "\<lparr>amount = 4, costBasis = 3\<rparr>" 2 4 4 0 33]
    partial_sell_cost_basis [of "\<lparr>amount = 4, costBasis = 3\<rparr>" 2 4 4 4 33]
  by (simp add: bigint_div_def)

text \<open>
  The claim as stated fails on truncation. Selling 2 of 4 tokens of a Holding with cost
  basis 3 removes 1 (not 1.5) from the cost basis; at a constant price of 1 per token
  the position's PnL is 33.33% before the sale (value 4, cost 3) and 0% after it
  (value 2, cost 2).
\<close>

theorem partial_sell_changes_pnl_counterexample:
  "executeSell \<lparr>amount = 4, costBasis = 3\<rparr> 2 4 3 False (Some 2) (Some 2) =
        (Some \<lparr>amount = 4, costBasis = 2\<rparr>, Some 1)
   \<and> (3::real) * 2 / 4 \<noteq> 1
   \<and> pnlPercentOf (4 - 3) 3 = 33.33
   \<and> pnlPercentOf (2 - 2) 2 = 0"
  by (simp add: executeSell_def Let_def bigint_div_def pnlPercentOf_def)

subsection \<open>Market regime\<close>

text \<open>
  Claim C5, as amended. With fewer than 5 tokens that have market data the detector
  returns sideways with confidence 20 and the insufficient-data reason. With 5 or more
  the regime is bull if bullScore > bearScore + 15, bear if bearScore > bullScore + 15,
  else sideways; the confidence is clamp(50 + |bullScore - bearScore|, 30, 90) in the
  bull and bear regimes and max(30, 70 - |bullScore - bearScore|) in the sideways regime.
\<close>

theorem detectMarketRegime_regime_confidence:
  "(length (withMarket ps) < 5 \<longrightarrow>
      RegimeAnalysis.regime (detectMarketRegime t ps) = Sideways
      \<and> RegimeAnalysis.confidence (detectMarketRegime t ps) = 20
      \<and> reasons (detectMarketRegime t ps) = [InsufficientData])
   \<and> (5 \<le> length (withMarket ps) \<and> regimePointsOf t ps = (bullScore, bearScore, rs) \<longrightarrow>
      RegimeAnalysis.regime (detectMarketRegime t ps) =
        (if bullScore > bearScore + 15 then Bull
         else if bearScore > bullScore + 15 then Bear else Sideways)
      \<and> (RegimeAnalysis.regime (detectMarketRegime t ps) \<noteq> Sideways \<longrightarrow>
            RegimeAnalysis.confidence (detectMarketRegime t ps) = max 30 (min 90 (50 + \<bar>bullScore - bearScore\<bar>)))
      \<and> (RegimeAnalysis.regime (detectMarketRegime t ps) = Sideways \<longrightarrow>
            RegimeAnalysis.confidence (detectMarketRegime t ps) = max 30 (70 - \<bar>bullScore - bearScore\<bar>)))"
proof -
  have few: "length (withMarket ps) < 5 \<longrightarrow>
      RegimeAnalysis.regime (detectMarketRegime t ps) = Sideways
      \<and> RegimeAnalysis.confidence (detectMarketRegime t ps) = 20
      \<and> reasons (detectMarketRegime t ps) = [InsufficientData]"
    by (simp add: detectMarketRegime_def Let_def)
  have many: "5 \<le> length (withMarket ps) \<and> regimePointsOf t ps = (bullScore, bearScore, rs) \<longrightarrow>
      RegimeAnalysis.regime (detectMarketRegime t ps) =
        (if bullScore > bearScore + 15 then Bull
         else if bearScore > bullScore + 15 then Bear else Sideways)
      \<and> (RegimeAnalysis.regime (detectMarketRegime t ps) \<noteq> Sideways \<longrightarrow>
            RegimeAnalysis.confidence (detectMarketRegime t ps) = max 30 (min 90 (50 + \<bar>bullScore - bearScore\<bar>)))
      \<and> (RegimeAnalysis.regime (detectMarketRegime t ps) = Sideways \<longrightarrow>
            RegimeAnalysis.confidence (detectMarketRegime t ps) = max 30 (70 - \<bar>bullScore - bearScore\<bar>))"
  proof (intro impI, elim conjE)
    assume n: "5 \<le> length (withMarket ps)" and pts: "regimePointsOf t ps = (bullScore, bearScore, rs)"
    have pts': "regimePoints (average (priceChanges1h (withMarket ps)))
        (average (priceChanges24h (withMarket ps))) (positivePctOf (priceChanges1h (withMarket ps)))
        (average_nan (volumesMon (withMarket ps))) (newTokenRateOf t ps) = (bullScore, bearScore, rs)"
      using pts by (simp add: regimePointsOf_def Let_def)
    show "RegimeAnalysis.regime (detectMarketRegime t ps) =
        (if bullScore > bearScore + 15 then Bull
         else if bearScore > bullScore + 15 then Bear else Sideways)
      \<and> (RegimeAnalysis.regime (detectMarketRegime t ps) \<noteq> Sideways \<longrightarrow>
            RegimeAnalysis.confidence (detectMarketRegime t ps) = max 30 (min 90 (50 + \<bar>bullScore - bearScore\<bar>)))
      \<and> (RegimeAnalysis.regime (detectMarketRegime t ps) = Sideways \<longrightarrow>
            RegimeAnalysis.confidence (detectMarketRegime t ps) = max 30 (70 - \<bar>bullScore - bearScore\<bar>))"
      using n by (auto simp add: detectMarketRegime_def Let_def pts')
  qed
  show ?thesis using few many by blast
qed

lemma withMarket_quietBatch: "length (withMarket quietBatch) = 5"
  by (simp add: withMarket_def quietBatch_def quietPair_def)

lemma regimePointsOf_quietBatch: "regimePointsOf 2000 quietBatch = (0, 0, [])"
  by (simp add: regimePointsOf_def regimePoints_def withMarket_def quietBatch_def quietPair_def
      priceChanges1h_def priceChanges24h_def average_def average_nan_def volumesMon_def
      positivePctOf_def newTokenRateOf_def nan_gt_def nan_lt_def Let_def)

theorem detectMarketRegime_regime_confidence_witness:
  "length (withMarket []) < 5
   \<and> RegimeAnalysis.regime (detectMarketRegime 2000 []) = Sideways
   \<and> RegimeAnalysis.confidence (detectMarketRegime 2000 []) = 20
   \<and> reasons (detectMarketRegime 2000 []) = [InsufficientData]
   \<and> 5 \<le> length (withMarket quietBatch)
   \<and> regimePointsOf 2000 quietBatch = (0, 0, [])
   \<and> RegimeAnalysis.regime (detectMarketRegime 2000 quietBatch) = Sideways
   \<and> RegimeAnalysis.confidence (detectMarketRegime 2000 quietBatch) = 70"
proof -
  have e: "length (withMarket []) < 5" by (simp add: withMarket_def)
  note few = detectMarketRegime_regime_confidence [of "[]" 2000 0 0 "[]"]
  note many = detectMarketRegime_regime_confidence [of quietBatch 2000 0 0 "[]"]
  show ?thesis
    using e few many withMarket_quietBatch regimePointsOf_quietBatch by simp
qed

text \<open>
  A batch of five quiet tokens scores 0 bull and 0 bear points: the regime is sideways
  and the confidence is 70, where clamp(50 + |0 - 0|, 30, 90) is 50.
\<close>

theorem sideways_confidence_counterexample:
  "5 \<le> length (withMarket quietBatch)
   \<and> regimePointsOf 2000 quietBatch = (0, 0, [])
   \<and> RegimeAnalysis.confidence (detectMarketRegime 2000 quietBatch) = 70
   \<and> max 30 (min 90 (50 + \<bar>0 - 0\<bar>)) = (50::int)"
  by (simp add: detectMarketRegime_def regimePointsOf_def regimePoints_def withMarket_def quietBatch_def quietPair_def
      priceChanges1h_def priceChanges24h_def average_def average_nan_def volumesMon_def
      positivePctOf_def newTokenRateOf_def nan_gt_def nan_lt_def Let_def)

subsection \<open>Advisory fallback\<close>

text \<open>
  Claim C6, as amended. When the advisory call of \<^verbatim>\<open>confirmTradeWithLLM\<close> fails or
  times out, the fallback approves the trade if and only if the signal score is at least
  85: it approves at score 92 and rejects at score 70. When the advisory call of
  \<^verbatim>\<open>makeAgentDecision\<close> fails, the fallback is SKIP with confidence 0, whatever the
  signal score.
\<close>

theorem advisory_failure_fallback:
  "(approved (confirmTradeWithLLM strat signal ConfirmThrows) \<longleftrightarrow> MarketSignal.score signal \<ge> 85)
   \<and> approved (confirmTradeWithLLM strat (signal\<lparr>MarketSignal.score := 92\<rparr>) ConfirmThrows)
   \<and> \<not> approved (confirmTradeWithLLM strat (signal\<lparr>MarketSignal.score := 70\<rparr>) ConfirmThrows)
   \<and> action (makeAgentDecision strat (DecisionThrows message)) = SKIP
   \<and> AgentDecision.confidence (makeAgentDecision strat (DecisionThrows message)) = 0"
  by (simp add: confirmTradeWithLLM_def makeAgentDecision_def)

text \<open>
  A signal of score 92 is above the bar of 85, yet a failing call of
  \<^verbatim>\<open>makeAgentDecision\<close> yields SKIP: that path never approves on failure.
\<close>

theorem decision_maker_fallback_counterexample:
  "MarketSignal.score \<lparr>MarketSignal.tokenAddress = ''0xabc'', tokenSymbol = ''TKN'', tokenName = ''Token'', score = 92\<rparr> \<ge> 85
   \<and> action (makeAgentDecision ''sniper'' (DecisionThrows ''Request timed out.'')) = SKIP"
  by (simp add: makeAgentDecision_def)

subsection \<open>Indicator sentinels\<close>




subsection \<open>Signal scores\<close>

lemma buildSignal_range:
  "0 \<le> MarketSignal.score (buildSignal ctx points) \<and> MarketSignal.score (buildSignal ctx points) \<le> 100"
  by (simp add: buildSignal_def)

lemma scorer_ranges:
  "0 \<le> MarketSignal.score (scoreSniper ctx) \<and> MarketSignal.score (scoreSniper ctx) \<le> 100"
  "0 \<le> MarketSignal.score (scoreAlphaHunter ctx) \<and> MarketSignal.score (scoreAlphaHunter ctx) \<le> 100"
  "0 \<le> MarketSignal.score (scoreDiamondHands ctx) \<and> MarketSignal.score (scoreDiamondHands ctx) \<le> 100"
  "0 \<le> MarketSignal.score (scoreSwingTrader ctx) \<and> MarketSignal.score (scoreSwingTrader ctx) \<le> 100"
  "0 \<le> MarketSignal.score (scoreDegenApe ctx) \<and> MarketSignal.score (scoreDegenApe ctx) \<le> 100"
  "0 \<le> MarketSignal.score (scoreVolumeWatcher ctx) \<and> MarketSignal.score (scoreVolumeWatcher ctx) \<le> 100"
  "0 \<le> MarketSignal.score (scoreTrendFollower ctx) \<and> MarketSignal.score (scoreTrendFollower ctx) \<le> 100"
  "0 \<le> MarketSignal.score (scoreContrarian ctx) \<and> MarketSignal.score (scoreContrarian ctx) \<le> 100"
  unfolding scoreSniper_def scoreAlphaHunter_def scoreDiamondHands_def scoreSwingTrader_def
    scoreDegenApe_def scoreVolumeWatcher_def scoreTrendFollower_def scoreContrarian_def Let_def
  by (rule buildSignal_range)+

text \<open>
  Claim C1. Each of the eight strategy names has a scorer, and for every token context
  the signal a scorer returns has a score between 0 and 100: a scorer is a total
  function that always ends in \<^verbatim>\<open>buildSignal\<close>, so no context is dropped.
\<close>

theorem scorer_score_in_range:
  "(strat \<in> {''alpha_hunter'', ''diamond_hands'', ''swing_trader'', ''degen_ape'',
              ''volume_watcher'', ''trend_follower'', ''contrarian'', ''sniper''}
      \<longrightarrow> (\<exists>scorer. STRATEGY_SCORERS strat = Some scorer))
   \<and> (STRATEGY_SCORERS strat = Some scorer
      \<longrightarrow> 0 \<le> MarketSignal.score (scorer ctx) \<and> MarketSignal.score (scorer ctx) \<le> 100)"
proof -
  have known: "strat \<in> {''alpha_hunter'', ''diamond_hands'', ''swing_trader'', ''degen_ape'',
              ''volume_watcher'', ''trend_follower'', ''contrarian'', ''sniper''}
      \<longrightarrow> (\<exists>scorer. STRATEGY_SCORERS strat = Some scorer)"
    by (auto simp: STRATEGY_SCORERS_def)
  have range: "STRATEGY_SCORERS strat = Some scorer
      \<longrightarrow> 0 \<le> MarketSignal.score (scorer ctx) \<and> MarketSignal.score (scorer ctx) \<le> 100"
  proof
    assume "STRATEGY_SCORERS strat = Some scorer"
    then have "scorer \<in> {scoreAlphaHunter, scoreDiamondHands, scoreSwingTrader, scoreDegenApe,
        scoreVolumeWatcher, scoreTrendFollower, scoreContrarian, scoreSniper}"
      by (auto simp: STRATEGY_SCORERS_def split: if_splits)
    then show "0 \<le> MarketSignal.score (scorer ctx) \<and> MarketSignal.score (scorer ctx) \<le> 100"
      using scorer_ranges [of ctx] by auto
  qed
  show ?thesis using known range by blast
qed

theorem scorer_score_in_range_witness:
  "''sniper'' \<in> {''alpha_hunter'', ''diamond_hands'', ''swing_trader'', ''degen_ape'',
              ''volume_watcher'', ''trend_follower'', ''contrarian'', ''sniper''}
   \<and> STRATEGY_SCORERS ''sniper'' = Some scoreSniper
   \<and> 0 \<le> MarketSignal.score (scoreSniper deadContext)
   \<and> MarketSignal.score (scoreSniper deadContext) \<le> 100
   \<and> 0 \<le> MarketSignal.score (scoreSniper (deadContext\<lparr>TokenContext.market := None\<rparr>))
   \<and> MarketSignal.score (scoreSniper (deadContext\<lparr>TokenContext.market := None\<rparr>)) \<le> 100"
proof -
  have s: "STRATEGY_SCORERS ''sniper'' = Some scoreSniper"
    by (simp add: STRATEGY_SCORERS_def)
  show ?thesis
    using s scorer_score_in_range [of "''sniper''" scoreSniper deadContext]
      scorer_score_in_range [of "''sniper''" scoreSniper "deadContext\<lparr>TokenContext.market := None\<rparr>"]
    by simp
qed

lemma dead_token_scores:
  "MarketSignal.score (scoreSniper deadContext) = 15"
  "MarketSignal.score (scoreContrarian deadContext) = 15"
  "MarketSignal.score (scoreSniper (deadContext\<lparr>TokenContext.market := None\<rparr>)) = 0"
  by (simp_all add: scoreSniper_def scoreContrarian_def buildSignal_def strategyOverlay_def baseScore_def
      deadContext_def deadToken_def ctxVol_def ctxHolders_def ctxChange1h_def ctxChange24h_def
      ctxGraduated_def volumeToMon_def truthy_gt_def truthy_lt_def Let_def)

subsection \<open>Quality gate and scan loop\<close>

lemma checkTokenQuality_few_holders:
  assumes "market_info tok = Some m"
    and "(case MarketInfo.holder_count m of None \<Rightarrow> 0 | Some h \<Rightarrow> h) < 30"
  shows "\<not> passed (checkTokenQuality t tok)
       \<and> QualityCheckResult.score (checkTokenQuality t tok) = 0
       \<and> QualityCheckResult.reason (checkTokenQuality t tok) \<noteq> None"
proof (cases "nan_lt (map_option (\<lambda>w. w / 10 ^ 18) (parseFloat (orZero (reserve_native m)))) 3")
  case True
  then show ?thesis using assms(1) unfolding checkTokenQuality_def Let_def by simp
next
  case False
  then show ?thesis using assms unfolding checkTokenQuality_def Let_def by simp
qed

lemma scanToken_Some:
  assumes "scanToken env strat pairs reg n tok = Some ctx"
  shows "TokenContext.token ctx = tok \<and> passed (checkTokenQuality (qualityNow env tok) tok)"
proof -
  have q: "passed (checkTokenQuality (qualityNow env tok) tok)"
  proof (rule ccontr)
    assume "\<not> passed (checkTokenQuality (qualityNow env tok) tok)"
    then have "scanToken env strat pairs reg n tok = None"
      unfolding scanToken_def Let_def by (simp split: option.splits)
    with assms show False by simp
  qed
  have "\<exists>mkt age curve. ctx = makeContext env reg n tok mkt age curve"
    using assms unfolding scanToken_def Let_def
    by (simp split: option.splits if_splits) blast+
  then have t: "TokenContext.token ctx = tok"
    by (auto simp: makeContext_def Let_def)
  show ?thesis using q t by simp
qed

lemma scanLoop_scored:
  "ctx \<in> set (scanLoop env strat pairs reg n toks) \<Longrightarrow>
   TokenContext.token ctx \<in> set toks
   \<and> passed (checkTokenQuality (qualityNow env (TokenContext.token ctx)) (TokenContext.token ctx))"
proof (induction toks arbitrary: n)
  case Nil
  then show ?case by simp
next
  case (Cons tok rest)
  show ?case
  proof (cases "scanToken env strat pairs reg n tok")
    case None
    with Cons.prems have "ctx \<in> set (scanLoop env strat pairs reg n rest)" by simp
    from Cons.IH [OF this] show ?thesis by simp
  next
    case (Some c)
    with Cons.prems have "ctx = c \<or> ctx \<in> set (scanLoop env strat pairs reg
        (if n < MAX_DETAILED then n + 1 else n) rest)" by simp
    then show ?thesis
    proof
      assume "ctx = c"
      with Some scanToken_Some [of env strat pairs reg n tok c] show ?thesis by simp
    next
      assume "ctx \<in> set (scanLoop env strat pairs reg (if n < MAX_DETAILED then n + 1 else n) rest)"
      from Cons.IH [OF this] show ?thesis by simp
    qed
  qed
qed

text \<open>
  Claim C7. A token whose market data show fewer than 30 holders (a missing count reads
  as 0) is rejected by the Quality Filter with score 0 and a reason, whatever its other
  metrics; and the scan loop never hands such a token to a strategy scorer.
\<close>

theorem few_holders_rejected_never_scored:
  assumes "market_info tok = Some m"
    and "(case MarketInfo.holder_count m of None \<Rightarrow> 0 | Some h \<Rightarrow> h) < 30"
  shows "\<not> passed (checkTokenQuality t tok)
       \<and> QualityCheckResult.score (checkTokenQuality t tok) = 0
       \<and> QualityCheckResult.reason (checkTokenQuality t tok) \<noteq> None
       \<and> tok \<notin> TokenContext.token ` set (scanLoop env strat pairs reg n toks)"
proof -
  have rej: "\<not> passed (checkTokenQuality u tok)
       \<and> QualityCheckResult.score (checkTokenQuality u tok) = 0
       \<and> QualityCheckResult.reason (checkTokenQuality u tok) \<noteq> None" for u
    using assms by (rule checkTokenQuality_few_holders)
  have never: "tok \<notin> TokenContext.token ` set (scanLoop env strat pairs reg n toks)"
  proof
    assume "tok \<in> TokenContext.token ` set (scanLoop env strat pairs reg n toks)"
    then obtain ctx where c: "ctx \<in> set (scanLoop env strat pairs reg n toks)"
      and e: "TokenContext.token ctx = tok" by auto
    from scanLoop_scored [OF c] e have "passed (checkTokenQuality (qualityNow env tok) tok)" by simp
    with rej show False by simp
  qed
  show ?thesis using rej never by blast
qed


theorem few_holders_rejected_never_scored_witness:
  "market_info thinToken = Some \<lparr>market_type = ''CURVE'', reserve_native = Parsed (10 * 10 ^ 18),
        MarketInfo.price = Parsed 1, price_native = Parsed 1,
        volume = Parsed (5000 * 10 ^ 18), MarketInfo.holder_count = Some 5\<rparr>
   \<and> (5::real) < 30
   \<and> \<not> passed (checkTokenQuality 10000 thinToken)
   \<and> QualityCheckResult.score (checkTokenQuality 10000 thinToken) = 0
   \<and> QualityCheckResult.reason (checkTokenQuality 10000 thinToken) \<noteq> None
   \<and> thinToken \<notin> TokenContext.token `
        set (scanLoop openEnv ''contrarian'' (tokenMarketPairsOf [thinToken]) Sideways 0 [thinToken])"
proof -
  have m: "market_info thinToken = Some \<lparr>market_type = ''CURVE'', reserve_native = Parsed (10 * 10 ^ 18),
        MarketInfo.price = Parsed 1, price_native = Parsed 1,
        volume = Parsed (5000 * 10 ^ 18), MarketInfo.holder_count = Some 5\<rparr>"
    by (simp add: thinToken_def)
  show ?thesis
    using m few_holders_rejected_never_scored [OF m, of 10000 openEnv "''contrarian''"
        "tokenMarketPairsOf [thinToken]" Sideways 0 "[thinToken]"]
    by simp
qed

lemma thinToken_reason:
  "checkTokenQuality 10000 thinToken = \<lparr>passed = False, reason = Some (TooFewHolders 5), score = 0\<rparr>"
  by (simp add: checkTokenQuality_def thinToken_def nan_lt_def Let_def)

end
